theory Spec2Isabelle
  imports Main
begin

section \<open>The request handler of \<^verbatim>\<open>request/main.go\<close>\<close>

text \<open>
  The program is one Lambda handler. It reads the \<^verbatim>\<open>X-Amz-Target\<close> header, and for the
  two issuance targets it decodes the body, resolves the policy of the request's zone,
  validates the request against it and only then calls the AWS backend.

  Everything the handler calls outside its own file is a field of the record \<open>env\<close>:
  the Go standard library (\<^verbatim>\<open>json.Unmarshal\<close>, \<^verbatim>\<open>json.Marshal\<close>,
  \<^verbatim>\<open>base64.StdEncoding.DecodeString\<close>), vcert (\<^verbatim>\<open>Request.SetCSR\<close>,
  \<^verbatim>\<open>Policy.ValidateCertificateRequest\<close>), the policy store (\<^verbatim>\<open>common.GetPolicy\<close>) and the
  AWS SDK (\<^verbatim>\<open>external.LoadDefaultAWSConfig\<close>, the two \<^verbatim>\<open>Send\<close> calls). A Go \<^verbatim>\<open>error\<close> is
  modelled by its message, the text \<^verbatim>\<open>%s\<close> prints. Every call of a collaborator is
  appended to a trace, so that the order of the calls can be stated (building the AWS
  client and the request object is part of the \<^verbatim>\<open>Send\<close> entry); a nil pointer dereference
  is the result \<open>Panicked\<close>.
\<close>

subsection \<open>Data\<close>

type_synonym error = string

text \<open>\<^verbatim>\<open>events.APIGatewayProxyRequest\<close> and \<^verbatim>\<open>events.APIGatewayProxyResponse\<close>: the fields the
  handler reads and writes.\<close>

record APIGatewayProxyRequest =
  Headers :: "string \<rightharpoonup> string"
  Body :: string

record APIGatewayProxyResponse =
  StatusCode :: int
  Body :: string

text \<open>\<^verbatim>\<open>acmpca.IssueCertificateInput\<close> and \<^verbatim>\<open>acm.RequestCertificateInput\<close> are declared by the AWS
  SDK. The handler reads \<^verbatim>\<open>Csr\<close> of the first and \<^verbatim>\<open>DomainName\<close> (a \<^verbatim>\<open>*string\<close>) and
  \<^verbatim>\<open>SubjectAlternativeNames\<close> of the second; their other fields are the extension part of
  the record.\<close>

record IssueCertificateInput =
  Csr :: string

record RequestCertificateInput =
  DomainName :: "string option"
  SubjectAlternativeNames :: "string list"

record 'a ACMPCAIssueCertificateRequest =
  IssueCertificateInput :: "'a IssueCertificateInput_scheme"
  VenafiZone :: string

record 'b VenafiRequestCertificateInput =
  RequestCertificateInput :: "'b RequestCertificateInput_scheme"
  VenafiZone :: string

text \<open>vcert's \<^verbatim>\<open>certificate.Request\<close>: the fields the handler assigns; the rest is the
  extension part. \<^verbatim>\<open>LocalGeneratedCSR\<close> is the zero value of \<^verbatim>\<open>CSrOriginOption\<close>.\<close>

datatype CSrOriginOption = LocalGeneratedCSR | ServiceGeneratedCSR | UserProvidedCSR

record pkix_Name =
  CommonName :: string

record Request =
  Subject :: pkix_Name
  DNSNames :: "string list"
  CsrOrigin :: CSrOriginOption

subsection \<open>Calls and results\<close>

text \<open>One constructor for each call the handlers make, with its arguments. \<open>'p\<close> is the
  policy, \<open>'c\<close> the AWS configuration, \<open>'r\<close> and \<open>'s\<close> the responses of the two backend
  operations.\<close>

datatype ('p, 'c, 'a, 'b, 'q, 'r, 's) call =
    Call_Unmarshal string
  | Call_DecodeString string
  | Call_SetCSR string
  | Call_GetPolicy string
  | Call_ValidateCertificateRequest 'p "'q Request_scheme"
  | Call_LoadDefaultAWSConfig
  | Call_Println string
  | Call_IssueCertificate_Send 'c "'a IssueCertificateInput_scheme"
  | Call_RequestCertificate_Send 'c "'b RequestCertificateInput_scheme"
  | Call_Marshal_IssueCertificate 'r
  | Call_Marshal_RequestCertificate 's
  | Call_passThru string

text \<open>A handler returns the pair \<^verbatim>\<open>(events.APIGatewayProxyResponse, error)\<close> or panics.\<close>

datatype result =
    Returned APIGatewayProxyResponse "error option"
  | Panicked string

type_synonym ('p, 'c, 'a, 'b, 'q, 'r, 's) outcome =
  "('p, 'c, 'a, 'b, 'q, 'r, 's) call list \<times> result"

text \<open>The collaborators. \<open>errUnmarshalJson\<close>, \<open>acmpcaListCertificateAuthorities\<close>,
  \<open>acmpcaGetCertificate\<close> and \<open>passThru\<close> are used by \<^verbatim>\<open>main.go\<close> and declared in another
  file of the package: \<open>errUnmarshalJson\<close> is a format string with two verbs, given here
  as the function of its two arguments. \<open>external_LoadDefaultAWSConfig\<close> returns both
  values of the Go pair, since one handler goes on with the configuration after an
  error.\<close>

record ('p, 'c, 'a, 'b, 'q, 'r, 's) env =
  json_Unmarshal_ACMPCAIssueCertificateRequest ::
    "string \<Rightarrow> error + 'a ACMPCAIssueCertificateRequest"
  json_Unmarshal_VenafiRequestCertificateInput ::
    "string \<Rightarrow> error + 'b VenafiRequestCertificateInput"
  base64_DecodeString :: "string \<Rightarrow> error + string"
  Request_zero_more :: 'q
  Request_SetCSR :: "'q Request_scheme \<Rightarrow> string \<Rightarrow> error + 'q Request_scheme"
  common_GetPolicy :: "string \<Rightarrow> error + 'p"
  Policy_ValidateCertificateRequest :: "'p \<Rightarrow> 'q Request_scheme \<Rightarrow> error option"
  external_LoadDefaultAWSConfig :: "'c \<times> error option"
  acmpca_IssueCertificate_Send :: "'c \<Rightarrow> 'a IssueCertificateInput_scheme \<Rightarrow> error + 'r"
  acm_RequestCertificate_Send :: "'c \<Rightarrow> 'b RequestCertificateInput_scheme \<Rightarrow> error + 's"
  json_Marshal_IssueCertificate :: "'r \<Rightarrow> error + string"
  json_Marshal_RequestCertificate :: "'s \<Rightarrow> error + string"
  errUnmarshalJson :: "string \<Rightarrow> error \<Rightarrow> string"
  acmpcaListCertificateAuthorities :: string
  acmpcaGetCertificate :: string
  passThru :: "APIGatewayProxyRequest \<Rightarrow> string \<Rightarrow> ('p, 'c, 'a, 'b, 'q, 'r, 's) outcome"

subsection \<open>Constants\<close>

definition acmRequestCertificate :: string where
  "acmRequestCertificate = ''CertificateManager.RequestCertificate''"

definition acmpcaIssueCertificate :: string where
  "acmpcaIssueCertificate = ''ACMPrivateCA.IssueCertificate''"

text \<open>The status codes of \<^verbatim>\<open>net/http\<close> the handler uses.\<close>

definition StatusOK :: int where "StatusOK = 200"
definition StatusForbidden :: int where "StatusForbidden = 403"
definition StatusMethodNotAllowed :: int where "StatusMethodNotAllowed = 405"
definition StatusUnprocessableEntity :: int where "StatusUnprocessableEntity = 422"
definition StatusFailedDependency :: int where "StatusFailedDependency = 424"
definition StatusInternalServerError :: int where "StatusInternalServerError = 500"

subsection \<open>The handlers\<close>

text \<open>\<^verbatim>\<open>clientError\<close>: \<^verbatim>\<open>fmt.Sprintf(`{ "msg" : "%s" }`, body)\<close> puts the text between the quotes
  as it is; the Go error returned is nil.\<close>

definition clientError :: "int \<Rightarrow> string \<Rightarrow> result" where
  \<open>clientError status body =
     Returned \<lparr>StatusCode = status, Body = ''{ "msg" : "'' @ body @ ''" }''\<rparr> None\<close>

text \<open>\<open>called c k\<close>: the call \<open>c\<close> is made, then the handler goes on as \<open>k\<close>.\<close>

definition called ::
  "('p, 'c, 'a, 'b, 'q, 'r, 's) call \<Rightarrow> ('p, 'c, 'a, 'b, 'q, 'r, 's) outcome
     \<Rightarrow> ('p, 'c, 'a, 'b, 'q, 'r, 's) outcome" where
  "called c k = (c # fst k, snd k)"

text \<open>\<^verbatim>\<open>var req certificate.Request\<close>: every field has its zero value.\<close>

definition zero_Request :: "'q \<Rightarrow> 'q Request_scheme" where
  "zero_Request z =
     \<lparr>Subject = \<lparr>CommonName = ''''\<rparr>, DNSNames = [], CsrOrigin = LocalGeneratedCSR, \<dots> = z\<rparr>"

definition venafiACMPCAIssueCertificateRequest ::
  "('p, 'c, 'a, 'b, 'q, 'r, 's) env \<Rightarrow> APIGatewayProxyRequest
     \<Rightarrow> ('p, 'c, 'a, 'b, 'q, 'r, 's) outcome" where
  "venafiACMPCAIssueCertificateRequest env request =
     called (Call_Unmarshal (APIGatewayProxyRequest.Body request))
     (case json_Unmarshal_ACMPCAIssueCertificateRequest env (APIGatewayProxyRequest.Body request) of
        Inl err \<Rightarrow>
          ([], clientError StatusUnprocessableEntity (errUnmarshalJson env acmpcaIssueCertificate err))
      | Inr certRequest0 \<Rightarrow>
     called (Call_DecodeString (Csr (IssueCertificateInput certRequest0)))
     (case base64_DecodeString env (Csr (IssueCertificateInput certRequest0)) of
        Inl err \<Rightarrow> ([], clientError StatusUnprocessableEntity ''Can`t decode csr from base64'')
      | Inr csr \<Rightarrow>
     called (Call_SetCSR csr)
     (case Request_SetCSR env (zero_Request (Request_zero_more env)) csr of
        Inl err \<Rightarrow> ([], clientError StatusUnprocessableEntity ''Can't parse certificate request'')
      | Inr req \<Rightarrow>
     (let certRequest =
        (if ACMPCAIssueCertificateRequest.VenafiZone certRequest0 = ''''
         then certRequest0\<lparr>ACMPCAIssueCertificateRequest.VenafiZone := ''Default''\<rparr>
         else certRequest0)
      in
     called (Call_GetPolicy (ACMPCAIssueCertificateRequest.VenafiZone certRequest))
     (case common_GetPolicy env (ACMPCAIssueCertificateRequest.VenafiZone certRequest) of
        Inl err \<Rightarrow>
          ([], clientError StatusFailedDependency (''Failed get policy from database: '' @ err))
      | Inr policy \<Rightarrow>
     called (Call_ValidateCertificateRequest policy req)
     (case Policy_ValidateCertificateRequest env policy req of
        Some err \<Rightarrow> ([], clientError StatusForbidden err)
      | None \<Rightarrow>
     called Call_LoadDefaultAWSConfig
     (case external_LoadDefaultAWSConfig env of
        (awsCfg, Some err) \<Rightarrow>
          ([], clientError StatusInternalServerError (''Error loading client: '' @ err))
      | (awsCfg, None) \<Rightarrow>
     called (Call_IssueCertificate_Send awsCfg (IssueCertificateInput certRequest))
     (case acmpca_IssueCertificate_Send env awsCfg (IssueCertificateInput certRequest) of
        Inl err \<Rightarrow>
          ([], clientError StatusInternalServerError
                 (''could not get certificate response: '' @ err))
      | Inr csrResp \<Rightarrow>
     called (Call_Marshal_IssueCertificate csrResp)
     (case json_Marshal_IssueCertificate env csrResp of
        Inl err \<Rightarrow>
          ([], clientError StatusUnprocessableEntity
                 (''Error marshaling response JSON for target '' @ acmpcaIssueCertificate
                    @ '': '' @ err))
      | Inr respoBodyJSON \<Rightarrow>
          ([], Returned \<lparr>StatusCode = StatusOK, Body = respoBodyJSON\<rparr> None))))))))))"

text \<open>\<^verbatim>\<open>*certRequest.DomainName\<close> panics when the pointer is nil. After a failed
  \<^verbatim>\<open>LoadDefaultAWSConfig\<close> this handler prints the error and goes on (lines 157 to 163):
  \<^verbatim>\<open>acm.New\<close> and \<^verbatim>\<open>RequestCertificateRequest\<close> build the client and the request from the
  configuration the failed call returned. That is the zero \<^verbatim>\<open>aws.Config\<close>, whose endpoint
  resolver is nil, and building the request on it panics, before \<^verbatim>\<open>Send\<close>. With a
  configuration that loaded, building the request does not fail, and \<^verbatim>\<open>Send\<close> is the call
  that reaches the backend.\<close>

definition venafiACMRequestCertificate ::
  "('p, 'c, 'a, 'b, 'q, 'r, 's) env \<Rightarrow> APIGatewayProxyRequest
     \<Rightarrow> ('p, 'c, 'a, 'b, 'q, 'r, 's) outcome" where
  "venafiACMRequestCertificate env request =
     called (Call_Unmarshal (APIGatewayProxyRequest.Body request))
     (case json_Unmarshal_VenafiRequestCertificateInput env (APIGatewayProxyRequest.Body request) of
        Inl err \<Rightarrow>
          ([], clientError StatusUnprocessableEntity (''Error unmarshaling JSON: '' @ err))
      | Inr certRequest0 \<Rightarrow>
     (case DomainName (RequestCertificateInput certRequest0) of
        None \<Rightarrow> ([], Panicked ''invalid memory address or nil pointer dereference'')
      | Some domainName \<Rightarrow>
     (let req = (zero_Request (Request_zero_more env))
                  \<lparr>Subject := \<lparr>CommonName = domainName\<rparr>,
                   DNSNames := SubjectAlternativeNames (RequestCertificateInput certRequest0),
                   CsrOrigin := ServiceGeneratedCSR\<rparr>;
          certRequest =
            (if VenafiRequestCertificateInput.VenafiZone certRequest0 = ''''
             then certRequest0\<lparr>VenafiRequestCertificateInput.VenafiZone := ''Default''\<rparr>
             else certRequest0)
      in
     called (Call_GetPolicy (VenafiRequestCertificateInput.VenafiZone certRequest))
     (case common_GetPolicy env (VenafiRequestCertificateInput.VenafiZone certRequest) of
        Inl err \<Rightarrow>
          ([], clientError StatusFailedDependency (''Failed get policy from database: '' @ err))
      | Inr policy \<Rightarrow>
     called (Call_ValidateCertificateRequest policy req)
     (case Policy_ValidateCertificateRequest env policy req of
        Some err \<Rightarrow> ([], clientError StatusForbidden err)
      | None \<Rightarrow>
     called Call_LoadDefaultAWSConfig
     (case external_LoadDefaultAWSConfig env of
        (awsCfg, Some err) \<Rightarrow>
          called (Call_Println (''Error loading client '' @ err @ [CHR 0x0A]))
            ([], Panicked ''invalid memory address or nil pointer dereference'')
      | (awsCfg, None) \<Rightarrow>
     called (Call_RequestCertificate_Send awsCfg (RequestCertificateInput certRequest))
     (case acm_RequestCertificate_Send env awsCfg (RequestCertificateInput certRequest) of
        Inl err \<Rightarrow>
          ([], clientError StatusInternalServerError
                 (''could not get certificate response: '' @ err))
      | Inr certResp \<Rightarrow>
     called (Call_Marshal_RequestCertificate certResp)
     (case json_Marshal_RequestCertificate env certResp of
        Inl err \<Rightarrow>
          ([], clientError StatusUnprocessableEntity
                 (''Error marshaling response JSON: '' @ err))
      | Inr respoBodyJSON \<Rightarrow>
          ([], Returned \<lparr>StatusCode = StatusOK, Body = respoBodyJSON\<rparr> None)))))))))"

text \<open>\<^verbatim>\<open>request.Headers["X-Amz-Target"]\<close>: a Go map gives the empty string for a key it
  does not hold.\<close>

definition target :: "APIGatewayProxyRequest \<Rightarrow> string" where
  "target request = (case Headers request ''X-Amz-Target'' of None \<Rightarrow> '''' | Some v \<Rightarrow> v)"

text \<open>\<^verbatim>\<open>ACMPCAHandler\<close>: the cases of the switch in the order of the source.\<close>

definition ACMPCAHandler ::
  "('p, 'c, 'a, 'b, 'q, 'r, 's) env \<Rightarrow> APIGatewayProxyRequest
     \<Rightarrow> ('p, 'c, 'a, 'b, 'q, 'r, 's) outcome" where
  "ACMPCAHandler env request =
     (if target request = acmpcaIssueCertificate then
        venafiACMPCAIssueCertificateRequest env request
      else if target request = acmRequestCertificate then
        venafiACMRequestCertificate env request
      else if target request = acmpcaListCertificateAuthorities env then
        called (Call_passThru (acmpcaListCertificateAuthorities env))
          (passThru env request (acmpcaListCertificateAuthorities env))
      else if target request = acmpcaGetCertificate env then
        called (Call_passThru (acmpcaGetCertificate env))
          (passThru env request (acmpcaGetCertificate env))
      else ([], clientError StatusMethodNotAllowed ''Can't determine requested method''))"

subsection \<open>Reading the trace\<close>

text \<open>The two calls that reach the certificate authority.\<close>

fun is_Send :: "('p, 'c, 'a, 'b, 'q, 'r, 's) call \<Rightarrow> bool" where
  "is_Send (Call_IssueCertificate_Send c i) = True"
| "is_Send (Call_RequestCertificate_Send c i) = True"
| "is_Send other = False"

text \<open>The zones the handler asked the policy store for, in order.\<close>

fun resolved_zones :: "('p, 'c, 'a, 'b, 'q, 'r, 's) call list \<Rightarrow> string list" where
  "resolved_zones [] = []"
| "resolved_zones (Call_GetPolicy zone # cs) = zone # resolved_zones cs"
| "resolved_zones (other # cs) = resolved_zones cs"

subsection \<open>The error envelope as JSON\<close>

text \<open>A recogniser for the JSON texts (RFC 8259) that are an object with the one member
  \<^verbatim>\<open>"msg"\<close> whose value is a string; it gives the string's value. Inside a JSON string a
  quotation mark, a reverse solidus and the control characters below \<^verbatim>\<open>0x20\<close> must be
  escaped.\<close>

definition is_ws :: "char \<Rightarrow> bool" where
  "is_ws c = (c = CHR '' '' \<or> c = CHR 0x09 \<or> c = CHR 0x0A \<or> c = CHR 0x0D)"

fun skip_ws :: "string \<Rightarrow> string" where
  "skip_ws [] = []"
| "skip_ws (c # cs) = (if is_ws c then skip_ws cs else c # cs)"

text \<open>\<open>expect c s\<close>: after white space \<open>s\<close> goes on with the character \<open>c\<close>; the text
  after it.\<close>

definition expect :: "char \<Rightarrow> string \<Rightarrow> string option" where
  "expect c s =
     (case skip_ws s of [] \<Rightarrow> None | d # rest \<Rightarrow> if d = c then Some rest else None)"

definition hex_digit :: "char \<Rightarrow> nat option" where
  "hex_digit c =
     (let n = (of_char c :: nat) in
      if 48 \<le> n \<and> n \<le> 57 then Some (n - 48)
      else if 65 \<le> n \<and> n \<le> 70 then Some (n - 55)
      else if 97 \<le> n \<and> n \<le> 102 then Some (n - 87)
      else None)"

text \<open>The UTF-8 bytes of a code unit below \<^verbatim>\<open>0x10000\<close>.\<close>

definition utf8 :: "nat \<Rightarrow> string" where
  "utf8 n =
     (if n < 128 then [char_of n]
      else if n < 2048 then [char_of (192 + n div 64), char_of (128 + n mod 64)]
      else [char_of (224 + n div 4096), char_of (128 + (n div 64) mod 64),
            char_of (128 + n mod 64)])"

text \<open>The characters that stand for themselves inside a JSON string.\<close>

definition plain_char :: "char \<Rightarrow> bool" where
  "plain_char c = (c \<noteq> CHR 0x22 \<and> c \<noteq> CHR 0x5C \<and> 32 \<le> (of_char c :: nat))"

text \<open>\<open>json_string cs\<close> reads a string's characters after its opening quotation mark: the
  value, and the text after the closing quotation mark.\<close>

fun json_string :: "string \<Rightarrow> (string \<times> string) option"
  and json_escape :: "string \<Rightarrow> (string \<times> string) option" where
  "json_string [] = None"
| "json_string (c # cs) =
     (if c = CHR 0x22 then Some ([], cs)
      else if c = CHR 0x5C then json_escape cs
      else if (of_char c :: nat) < 32 then None
      else map_option (\<lambda>(v, rest). (c # v, rest)) (json_string cs))"
| "json_escape [] = None"
| "json_escape (e # cs) =
     (if e = CHR 0x22 \<or> e = CHR 0x5C \<or> e = CHR ''/'' then
        map_option (\<lambda>(v, rest). (e # v, rest)) (json_string cs)
      else if e = CHR ''b'' then map_option (\<lambda>(v, rest). (CHR 0x08 # v, rest)) (json_string cs)
      else if e = CHR ''f'' then map_option (\<lambda>(v, rest). (CHR 0x0C # v, rest)) (json_string cs)
      else if e = CHR ''n'' then map_option (\<lambda>(v, rest). (CHR 0x0A # v, rest)) (json_string cs)
      else if e = CHR ''r'' then map_option (\<lambda>(v, rest). (CHR 0x0D # v, rest)) (json_string cs)
      else if e = CHR ''t'' then map_option (\<lambda>(v, rest). (CHR 0x09 # v, rest)) (json_string cs)
      else if e = CHR ''u'' then
        (case map hex_digit (take 4 cs) of
           [Some a, Some b, Some c, Some d] \<Rightarrow>
             map_option (\<lambda>(v, rest). (utf8 (((a * 16 + b) * 16 + c) * 16 + d) @ v, rest))
               (json_string (drop 4 cs))
         | _ \<Rightarrow> None)
      else None)"

text \<open>\<open>msg_envelope body\<close>: the message, when \<open>body\<close> is \<^verbatim>\<open>{ "msg" : <string> }\<close> up to
  white space, and \<open>None\<close> when it is not such a JSON text.\<close>

definition msg_envelope :: "string \<Rightarrow> string option" where
  "msg_envelope body =
     Option.bind (expect (CHR ''{'') body) (\<lambda>s1.
     Option.bind (expect (CHR 0x22) s1) (\<lambda>s2.
     Option.bind (json_string s2) (\<lambda>(k, s3).
     if k \<noteq> ''msg'' then None else
     Option.bind (expect (CHR '':'') s3) (\<lambda>s4.
     Option.bind (expect (CHR 0x22) s4) (\<lambda>s5.
     Option.bind (json_string s5) (\<lambda>(m, s6).
     Option.bind (expect (CHR ''}'') s6) (\<lambda>s7.
     if skip_ws s7 = [] then Some m else None)))))))"

subsection \<open>A recording test double\<close>

text \<open>A concrete environment for running the handlers: a policy is the list of the common
  names its zone allows, the zones \<^verbatim>\<open>Default\<close> and \<^verbatim>\<open>Strict\<close> exist, and the bytes
  \<^verbatim>\<open>CN=<name>\<close> stand for a well-formed signing request with that common name. The JSON
  decoders are tables of the bodies below, decoded as Go decodes them (a \<^verbatim>\<open>[]byte\<close> field
  is base64 in the JSON text). The result of loading the AWS configuration and a
  failure of \<^verbatim>\<open>json.Marshal\<close> are parameters.\<close>

definition body_issue :: string where
  \<open>body_issue = ''{"Csr":"UTA0OWRHVnpkQzVsZUdGdGNHeGxMbU52YlE9PQ=="}''\<close>

definition body_issue_strict :: string where
  \<open>body_issue_strict =
     ''{"Csr":"UTA0OWRHVnpkQzVsZUdGdGNHeGxMbU52YlE9PQ==","VenafiZone":"Strict"}''\<close>

definition body_issue_ghost :: string where
  \<open>body_issue_ghost =
     ''{"Csr":"UTA0OWRHVnpkQzVsZUdGdGNHeGxMbU52YlE9PQ==","VenafiZone":"Ghost"}''\<close>

definition body_issue_not_base64 :: string where
  \<open>body_issue_not_base64 = ''{"Csr":"bm90LWJhc2U2NCEh","VenafiZone":"Default"}''\<close>

definition body_issue_garbage :: string where
  \<open>body_issue_garbage = ''{"Csr":"WjJGeVltRm5aUT09","VenafiZone":"Default"}''\<close>

definition body_request :: string where
  \<open>body_request = ''{"DomainName":"test.example.com","VenafiZone":""}''\<close>

definition body_request_strict :: string where
  \<open>body_request_strict = ''{"DomainName":"test.example.com","VenafiZone":"Strict"}''\<close>

definition body_request_ghost :: string where
  \<open>body_request_ghost = ''{"DomainName":"test.example.com","VenafiZone":"Ghost"}''\<close>

definition body_request_no_domain :: string where
  \<open>body_request_no_domain = ''{"VenafiZone":"Default"}''\<close>

definition body_syntax_error :: string where
  \<open>body_syntax_error = ''{"DomainName" "test.example.com"}''\<close>

definition err_syntax :: error where
  \<open>err_syntax = ''invalid character '"' after object key''\<close>

text \<open>The body \<^verbatim>\<open>clientError\<close> builds from the message of \<open>err_syntax\<close>.\<close>

definition envelope_syntax_error :: string where
  \<open>envelope_syntax_error =
     ''{ "msg" : "Error unmarshaling JSON: invalid character '"' after object key" }''\<close>

definition csr_b64 :: string where
  "csr_b64 = ''Q049dGVzdC5leGFtcGxlLmNvbQ==''"

definition stub_Unmarshal_issue :: "string \<Rightarrow> error + unit ACMPCAIssueCertificateRequest" where
  "stub_Unmarshal_issue body =
     (if body = body_issue then
        Inr \<lparr>IssueCertificateInput = \<lparr>Csr = csr_b64\<rparr>, VenafiZone = ''''\<rparr>
      else if body = body_issue_strict then
        Inr \<lparr>IssueCertificateInput = \<lparr>Csr = csr_b64\<rparr>, VenafiZone = ''Strict''\<rparr>
      else if body = body_issue_ghost then
        Inr \<lparr>IssueCertificateInput = \<lparr>Csr = csr_b64\<rparr>, VenafiZone = ''Ghost''\<rparr>
      else if body = body_issue_not_base64 then
        Inr \<lparr>IssueCertificateInput = \<lparr>Csr = ''not-base64!!''\<rparr>, VenafiZone = ''Default''\<rparr>
      else if body = body_issue_garbage then
        Inr \<lparr>IssueCertificateInput = \<lparr>Csr = ''Z2FyYmFnZQ==''\<rparr>, VenafiZone = ''Default''\<rparr>
      else Inl err_syntax)"

definition stub_Unmarshal_request :: "string \<Rightarrow> error + unit VenafiRequestCertificateInput" where
  "stub_Unmarshal_request body =
     (if body = body_request then
        Inr \<lparr>RequestCertificateInput =
               \<lparr>DomainName = Some ''test.example.com'', SubjectAlternativeNames = []\<rparr>,
             VenafiZone = ''''\<rparr>
      else if body = body_request_strict then
        Inr \<lparr>RequestCertificateInput =
               \<lparr>DomainName = Some ''test.example.com'', SubjectAlternativeNames = []\<rparr>,
             VenafiZone = ''Strict''\<rparr>
      else if body = body_request_ghost then
        Inr \<lparr>RequestCertificateInput =
               \<lparr>DomainName = Some ''test.example.com'', SubjectAlternativeNames = []\<rparr>,
             VenafiZone = ''Ghost''\<rparr>
      else if body = body_request_no_domain then
        Inr \<lparr>RequestCertificateInput =
               \<lparr>DomainName = None, SubjectAlternativeNames = []\<rparr>,
             VenafiZone = ''Default''\<rparr>
      else Inl err_syntax)"

definition stub_DecodeString :: "string \<Rightarrow> error + string" where
  "stub_DecodeString s =
     (if s = csr_b64 then Inr ''CN=test.example.com''
      else if s = ''Z2FyYmFnZQ=='' then Inr ''garbage''
      else Inl ''illegal base64 data at input byte 3'')"

definition stub_SetCSR :: "Request \<Rightarrow> string \<Rightarrow> error + Request" where
  "stub_SetCSR req csr =
     (if take 3 csr = ''CN='' then Inr (req\<lparr>Subject := \<lparr>CommonName = drop 3 csr\<rparr>\<rparr>)
      else Inl ''asn1: structure error'')"

definition stub_GetPolicy :: "string \<Rightarrow> error + string list" where
  "stub_GetPolicy zone =
     (if zone = ''Default'' then Inr [''test.example.com'']
      else if zone = ''Strict'' then Inr [''www.other.com'']
      else Inl ''zone not found'')"

definition stub_Validate :: "string list \<Rightarrow> Request \<Rightarrow> error option" where
  "stub_Validate allowed req =
     (if CommonName (Subject req) \<in> set allowed then None
      else Some (''common name '' @ CommonName (Subject req) @ '' is not allowed''))"

definition stub_Marshal :: "error option \<Rightarrow> string \<Rightarrow> error + string" where
  \<open>stub_Marshal failure arn =
     (case failure of
        Some err \<Rightarrow> Inl err
      | None \<Rightarrow> Inr (''{"CertificateArn":"'' @ arn @ ''"}''))\<close>

definition stub ::
  "string \<times> error option \<Rightarrow> error option
     \<Rightarrow> (string list, string, unit, unit, unit, string, string) env" where
  "stub cfg marshal_failure =
     \<lparr>json_Unmarshal_ACMPCAIssueCertificateRequest = stub_Unmarshal_issue,
      json_Unmarshal_VenafiRequestCertificateInput = stub_Unmarshal_request,
      base64_DecodeString = stub_DecodeString,
      Request_zero_more = (),
      Request_SetCSR = stub_SetCSR,
      common_GetPolicy = stub_GetPolicy,
      Policy_ValidateCertificateRequest = stub_Validate,
      external_LoadDefaultAWSConfig = cfg,
      acmpca_IssueCertificate_Send = (\<lambda>c i. Inr ''arn:aws:acm-pca:certificate/1''),
      acm_RequestCertificate_Send = (\<lambda>c i. Inr ''arn:aws:acm:certificate/2''),
      json_Marshal_IssueCertificate = stub_Marshal marshal_failure,
      json_Marshal_RequestCertificate = stub_Marshal marshal_failure,
      errUnmarshalJson = (\<lambda>t err. ''Error unmarshaling JSON for target '' @ t @ '': '' @ err),
      acmpcaListCertificateAuthorities = ''ACMPrivateCA.ListCertificateAuthorities'',
      acmpcaGetCertificate = ''ACMPrivateCA.GetCertificate'',
      passThru = (\<lambda>request t. ([], Returned \<lparr>StatusCode = 200, Body = ''{}''\<rparr> None))\<rparr>"

text \<open>What \<open>stub_Marshal\<close> makes of the two responses of the backend.\<close>

definition issued_json :: string where
  \<open>issued_json = ''{"CertificateArn":"arn:aws:acm-pca:certificate/1"}''\<close>

definition requested_json :: string where
  \<open>requested_json = ''{"CertificateArn":"arn:aws:acm:certificate/2"}''\<close>

text \<open>The request with the given operation in \<^verbatim>\<open>X-Amz-Target\<close> and the given body.\<close>

definition request_for :: "string \<Rightarrow> string \<Rightarrow> APIGatewayProxyRequest" where
  "request_for op body = \<lparr>Headers = [''X-Amz-Target'' \<mapsto> op], Body = body\<rparr>"

section \<open>Properties\<close>

subsection \<open>The paths of the two handlers\<close>

lemma called_pair [simp]: "called c (tr, r) = (c # tr, r)"
  by (simp add: called_def)

lemma fst_called [simp]: "fst (called c k) = c # fst k"
  by (simp add: called_def)

lemma snd_called [simp]: "snd (called c k) = snd k"
  by (simp add: called_def)

lemmas status_defs =
  StatusOK_def StatusForbidden_def StatusMethodNotAllowed_def StatusUnprocessableEntity_def
  StatusFailedDependency_def StatusInternalServerError_def

lemma issue_ne_request: "acmpcaIssueCertificate \<noteq> acmRequestCertificate"
  by (simp add: acmpcaIssueCertificate_def acmRequestCertificate_def)

lemma handler_issue:
  "target request = acmpcaIssueCertificate \<Longrightarrow>
     ACMPCAHandler env request = venafiACMPCAIssueCertificateRequest env request"
  by (simp add: ACMPCAHandler_def)

lemma handler_request:
  "target request = acmRequestCertificate \<Longrightarrow>
     ACMPCAHandler env request = venafiACMRequestCertificate env request"
  by (simp add: ACMPCAHandler_def issue_ne_request [symmetric])

text \<open>\<^verbatim>\<open>venafiACMPCAIssueCertificateRequest\<close>, one lemma for each place where it returns.\<close>

lemma issue_unmarshal_failed:
  assumes "json_Unmarshal_ACMPCAIssueCertificateRequest env (APIGatewayProxyRequest.Body request)
             = Inl err"
  shows "venafiACMPCAIssueCertificateRequest env request =
           ([Call_Unmarshal (APIGatewayProxyRequest.Body request)],
            Returned
              \<lparr>StatusCode = 422,
               Body = ''{ '' @ CHR 0x22 # ''msg'' @ CHR 0x22 # '' : '' @ CHR 0x22 #
                      errUnmarshalJson env acmpcaIssueCertificate err @ CHR 0x22 # '' }''\<rparr> None)"
  using assms by (simp add: venafiACMPCAIssueCertificateRequest_def clientError_def
        status_defs)

lemma issue_base64_failed:
  assumes "json_Unmarshal_ACMPCAIssueCertificateRequest env (APIGatewayProxyRequest.Body request)
             = Inr cr"
      and "base64_DecodeString env (Csr (IssueCertificateInput cr)) = Inl err"
  shows "venafiACMPCAIssueCertificateRequest env request =
           ([Call_Unmarshal (APIGatewayProxyRequest.Body request),
             Call_DecodeString (Csr (IssueCertificateInput cr))],
            Returned
              \<lparr>StatusCode = 422,
               Body = ''{ '' @ CHR 0x22 # ''msg'' @ CHR 0x22 # '' : '' @ CHR 0x22 #
                      ''Can`t decode csr from base64'' @ CHR 0x22 # '' }''\<rparr> None)"
  using assms by (simp add: venafiACMPCAIssueCertificateRequest_def clientError_def
        status_defs)

lemma issue_csr_failed:
  assumes "json_Unmarshal_ACMPCAIssueCertificateRequest env (APIGatewayProxyRequest.Body request)
             = Inr cr"
      and "base64_DecodeString env (Csr (IssueCertificateInput cr)) = Inr csr"
      and "Request_SetCSR env (zero_Request (Request_zero_more env)) csr = Inl err"
  shows "venafiACMPCAIssueCertificateRequest env request =
           ([Call_Unmarshal (APIGatewayProxyRequest.Body request),
             Call_DecodeString (Csr (IssueCertificateInput cr)),
             Call_SetCSR csr],
            Returned
              \<lparr>StatusCode = 422,
               Body = ''{ '' @ CHR 0x22 # ''msg'' @ CHR 0x22 # '' : '' @ CHR 0x22 #
                      ''Can't parse certificate request'' @ CHR 0x22 # '' }''\<rparr> None)"
  using assms by (simp add: venafiACMPCAIssueCertificateRequest_def clientError_def
        status_defs)

lemma issue_policy_failed:
  assumes "json_Unmarshal_ACMPCAIssueCertificateRequest env (APIGatewayProxyRequest.Body request)
             = Inr cr"
      and "base64_DecodeString env (Csr (IssueCertificateInput cr)) = Inr csr"
      and "Request_SetCSR env (zero_Request (Request_zero_more env)) csr = Inr req"
      and "common_GetPolicy env
             (if ACMPCAIssueCertificateRequest.VenafiZone cr = '''' then ''Default''
              else ACMPCAIssueCertificateRequest.VenafiZone cr) = Inl err"
  shows "venafiACMPCAIssueCertificateRequest env request =
           ([Call_Unmarshal (APIGatewayProxyRequest.Body request),
             Call_DecodeString (Csr (IssueCertificateInput cr)),
             Call_SetCSR csr,
             Call_GetPolicy
               (if ACMPCAIssueCertificateRequest.VenafiZone cr = '''' then ''Default''
                else ACMPCAIssueCertificateRequest.VenafiZone cr)],
            Returned
              \<lparr>StatusCode = 424,
               Body = ''{ '' @ CHR 0x22 # ''msg'' @ CHR 0x22 # '' : '' @ CHR 0x22 #
                      ''Failed get policy from database: '' @ err @ CHR 0x22 # '' }''\<rparr> None)"
  using assms
  by (cases "ACMPCAIssueCertificateRequest.VenafiZone cr = ''''")
     (simp_all add: venafiACMPCAIssueCertificateRequest_def clientError_def
        status_defs)

lemma issue_rejected:
  assumes "json_Unmarshal_ACMPCAIssueCertificateRequest env (APIGatewayProxyRequest.Body request)
             = Inr cr"
      and "base64_DecodeString env (Csr (IssueCertificateInput cr)) = Inr csr"
      and "Request_SetCSR env (zero_Request (Request_zero_more env)) csr = Inr req"
      and "common_GetPolicy env
             (if ACMPCAIssueCertificateRequest.VenafiZone cr = '''' then ''Default''
              else ACMPCAIssueCertificateRequest.VenafiZone cr) = Inr policy"
      and "Policy_ValidateCertificateRequest env policy req = Some reason"
  shows "venafiACMPCAIssueCertificateRequest env request =
           ([Call_Unmarshal (APIGatewayProxyRequest.Body request),
             Call_DecodeString (Csr (IssueCertificateInput cr)),
             Call_SetCSR csr,
             Call_GetPolicy
               (if ACMPCAIssueCertificateRequest.VenafiZone cr = '''' then ''Default''
                else ACMPCAIssueCertificateRequest.VenafiZone cr),
             Call_ValidateCertificateRequest policy req],
            Returned
              \<lparr>StatusCode = 403,
               Body = ''{ '' @ CHR 0x22 # ''msg'' @ CHR 0x22 # '' : '' @ CHR 0x22 #
                      reason @ CHR 0x22 # '' }''\<rparr> None)"
  using assms
  by (cases "ACMPCAIssueCertificateRequest.VenafiZone cr = ''''")
     (simp_all add: venafiACMPCAIssueCertificateRequest_def clientError_def
        status_defs)

lemma issue_config_failed:
  assumes "json_Unmarshal_ACMPCAIssueCertificateRequest env (APIGatewayProxyRequest.Body request)
             = Inr cr"
      and "base64_DecodeString env (Csr (IssueCertificateInput cr)) = Inr csr"
      and "Request_SetCSR env (zero_Request (Request_zero_more env)) csr = Inr req"
      and "common_GetPolicy env
             (if ACMPCAIssueCertificateRequest.VenafiZone cr = '''' then ''Default''
              else ACMPCAIssueCertificateRequest.VenafiZone cr) = Inr policy"
      and "Policy_ValidateCertificateRequest env policy req = None"
      and "external_LoadDefaultAWSConfig env = (awsCfg, Some err)"
  shows "venafiACMPCAIssueCertificateRequest env request =
           ([Call_Unmarshal (APIGatewayProxyRequest.Body request),
             Call_DecodeString (Csr (IssueCertificateInput cr)),
             Call_SetCSR csr,
             Call_GetPolicy
               (if ACMPCAIssueCertificateRequest.VenafiZone cr = '''' then ''Default''
                else ACMPCAIssueCertificateRequest.VenafiZone cr),
             Call_ValidateCertificateRequest policy req,
             Call_LoadDefaultAWSConfig],
            Returned
              \<lparr>StatusCode = 500,
               Body = ''{ '' @ CHR 0x22 # ''msg'' @ CHR 0x22 # '' : '' @ CHR 0x22 #
                      ''Error loading client: '' @ err @ CHR 0x22 # '' }''\<rparr> None)"
  using assms
  by (cases "ACMPCAIssueCertificateRequest.VenafiZone cr = ''''")
     (simp_all add: venafiACMPCAIssueCertificateRequest_def clientError_def
        status_defs)

lemma issue_sent:
  assumes "json_Unmarshal_ACMPCAIssueCertificateRequest env (APIGatewayProxyRequest.Body request)
             = Inr cr"
      and "base64_DecodeString env (Csr (IssueCertificateInput cr)) = Inr csr"
      and "Request_SetCSR env (zero_Request (Request_zero_more env)) csr = Inr req"
      and "common_GetPolicy env
             (if ACMPCAIssueCertificateRequest.VenafiZone cr = '''' then ''Default''
              else ACMPCAIssueCertificateRequest.VenafiZone cr) = Inr policy"
      and "Policy_ValidateCertificateRequest env policy req = None"
      and "external_LoadDefaultAWSConfig env = (awsCfg, None)"
  shows "venafiACMPCAIssueCertificateRequest env request =
           ([Call_Unmarshal (APIGatewayProxyRequest.Body request),
             Call_DecodeString (Csr (IssueCertificateInput cr)),
             Call_SetCSR csr,
             Call_GetPolicy
               (if ACMPCAIssueCertificateRequest.VenafiZone cr = '''' then ''Default''
                else ACMPCAIssueCertificateRequest.VenafiZone cr),
             Call_ValidateCertificateRequest policy req,
             Call_LoadDefaultAWSConfig,
             Call_IssueCertificate_Send awsCfg (IssueCertificateInput cr)]
            @ (case acmpca_IssueCertificate_Send env awsCfg (IssueCertificateInput cr) of
                 Inl err \<Rightarrow> []
               | Inr csrResp \<Rightarrow> [Call_Marshal_IssueCertificate csrResp]),
            case acmpca_IssueCertificate_Send env awsCfg (IssueCertificateInput cr) of
              Inl err \<Rightarrow>
                clientError StatusInternalServerError
                  (''could not get certificate response: '' @ err)
            | Inr csrResp \<Rightarrow>
                (case json_Marshal_IssueCertificate env csrResp of
                   Inl err \<Rightarrow>
                     clientError StatusUnprocessableEntity
                       (''Error marshaling response JSON for target '' @ acmpcaIssueCertificate
                          @ '': '' @ err)
                 | Inr respoBodyJSON \<Rightarrow>
                     Returned \<lparr>StatusCode = StatusOK, Body = respoBodyJSON\<rparr> None))"
  using assms
  by (cases "ACMPCAIssueCertificateRequest.VenafiZone cr = ''''")
     (simp_all add: venafiACMPCAIssueCertificateRequest_def split: sum.split)

text \<open>\<^verbatim>\<open>venafiACMRequestCertificate\<close>, in the same way.\<close>

lemma request_unmarshal_failed:
  assumes "json_Unmarshal_VenafiRequestCertificateInput env (APIGatewayProxyRequest.Body request)
             = Inl err"
  shows "venafiACMRequestCertificate env request =
           ([Call_Unmarshal (APIGatewayProxyRequest.Body request)],
            Returned
              \<lparr>StatusCode = 422,
               Body = ''{ '' @ CHR 0x22 # ''msg'' @ CHR 0x22 # '' : '' @ CHR 0x22 #
                      ''Error unmarshaling JSON: '' @ err @ CHR 0x22 # '' }''\<rparr> None)"
  using assms by (simp add: venafiACMRequestCertificate_def clientError_def
        status_defs)

lemma request_panicked:
  assumes "json_Unmarshal_VenafiRequestCertificateInput env (APIGatewayProxyRequest.Body request)
             = Inr cr"
      and "DomainName (RequestCertificateInput cr) = None"
  shows "venafiACMRequestCertificate env request =
           ([Call_Unmarshal (APIGatewayProxyRequest.Body request)],
            Panicked ''invalid memory address or nil pointer dereference'')"
  using assms by (simp add: venafiACMRequestCertificate_def)

lemma request_policy_failed:
  assumes "json_Unmarshal_VenafiRequestCertificateInput env (APIGatewayProxyRequest.Body request)
             = Inr cr"
      and "DomainName (RequestCertificateInput cr) = Some domainName"
      and "common_GetPolicy env
             (if VenafiRequestCertificateInput.VenafiZone cr = '''' then ''Default''
              else VenafiRequestCertificateInput.VenafiZone cr) = Inl err"
  shows "venafiACMRequestCertificate env request =
           ([Call_Unmarshal (APIGatewayProxyRequest.Body request),
             Call_GetPolicy
               (if VenafiRequestCertificateInput.VenafiZone cr = '''' then ''Default''
                else VenafiRequestCertificateInput.VenafiZone cr)],
            Returned
              \<lparr>StatusCode = 424,
               Body = ''{ '' @ CHR 0x22 # ''msg'' @ CHR 0x22 # '' : '' @ CHR 0x22 #
                      ''Failed get policy from database: '' @ err @ CHR 0x22 # '' }''\<rparr> None)"
  using assms
  by (cases "VenafiRequestCertificateInput.VenafiZone cr = ''''")
     (simp_all add: venafiACMRequestCertificate_def clientError_def
        status_defs)

lemma request_rejected:
  assumes "json_Unmarshal_VenafiRequestCertificateInput env (APIGatewayProxyRequest.Body request)
             = Inr cr"
      and "DomainName (RequestCertificateInput cr) = Some domainName"
      and "common_GetPolicy env
             (if VenafiRequestCertificateInput.VenafiZone cr = '''' then ''Default''
              else VenafiRequestCertificateInput.VenafiZone cr) = Inr policy"
      and "Policy_ValidateCertificateRequest env policy
             \<lparr>Subject = \<lparr>CommonName = domainName\<rparr>,
              DNSNames = SubjectAlternativeNames (RequestCertificateInput cr),
              CsrOrigin = ServiceGeneratedCSR, \<dots> = Request_zero_more env\<rparr> = Some reason"
  shows "venafiACMRequestCertificate env request =
           ([Call_Unmarshal (APIGatewayProxyRequest.Body request),
             Call_GetPolicy
               (if VenafiRequestCertificateInput.VenafiZone cr = '''' then ''Default''
                else VenafiRequestCertificateInput.VenafiZone cr),
             Call_ValidateCertificateRequest policy
               \<lparr>Subject = \<lparr>CommonName = domainName\<rparr>,
                DNSNames = SubjectAlternativeNames (RequestCertificateInput cr),
                CsrOrigin = ServiceGeneratedCSR, \<dots> = Request_zero_more env\<rparr>],
            Returned
              \<lparr>StatusCode = 403,
               Body = ''{ '' @ CHR 0x22 # ''msg'' @ CHR 0x22 # '' : '' @ CHR 0x22 #
                      reason @ CHR 0x22 # '' }''\<rparr> None)"
  using assms
  by (cases "VenafiRequestCertificateInput.VenafiZone cr = ''''")
     (simp_all add: venafiACMRequestCertificate_def zero_Request_def clientError_def
        status_defs)

lemma request_sent:
  assumes "json_Unmarshal_VenafiRequestCertificateInput env (APIGatewayProxyRequest.Body request)
             = Inr cr"
      and "DomainName (RequestCertificateInput cr) = Some domainName"
      and "common_GetPolicy env
             (if VenafiRequestCertificateInput.VenafiZone cr = '''' then ''Default''
              else VenafiRequestCertificateInput.VenafiZone cr) = Inr policy"
      and "Policy_ValidateCertificateRequest env policy
             \<lparr>Subject = \<lparr>CommonName = domainName\<rparr>,
              DNSNames = SubjectAlternativeNames (RequestCertificateInput cr),
              CsrOrigin = ServiceGeneratedCSR, \<dots> = Request_zero_more env\<rparr> = None"
      and "external_LoadDefaultAWSConfig env = (awsCfg, None)"
  shows "venafiACMRequestCertificate env request =
           ([Call_Unmarshal (APIGatewayProxyRequest.Body request),
             Call_GetPolicy
               (if VenafiRequestCertificateInput.VenafiZone cr = '''' then ''Default''
                else VenafiRequestCertificateInput.VenafiZone cr),
             Call_ValidateCertificateRequest policy
               \<lparr>Subject = \<lparr>CommonName = domainName\<rparr>,
                DNSNames = SubjectAlternativeNames (RequestCertificateInput cr),
                CsrOrigin = ServiceGeneratedCSR, \<dots> = Request_zero_more env\<rparr>,
             Call_LoadDefaultAWSConfig,
             Call_RequestCertificate_Send awsCfg (RequestCertificateInput cr)]
            @ (case acm_RequestCertificate_Send env awsCfg (RequestCertificateInput cr) of
                 Inl err \<Rightarrow> []
               | Inr certResp \<Rightarrow> [Call_Marshal_RequestCertificate certResp]),
            case acm_RequestCertificate_Send env awsCfg (RequestCertificateInput cr) of
              Inl err \<Rightarrow>
                clientError StatusInternalServerError
                  (''could not get certificate response: '' @ err)
            | Inr certResp \<Rightarrow>
                (case json_Marshal_RequestCertificate env certResp of
                   Inl err \<Rightarrow>
                     clientError StatusUnprocessableEntity
                       (''Error marshaling response JSON: '' @ err)
                 | Inr respoBodyJSON \<Rightarrow>
                     Returned \<lparr>StatusCode = StatusOK, Body = respoBodyJSON\<rparr> None))"
  using assms
  by (cases "VenafiRequestCertificateInput.VenafiZone cr = ''''")
     (simp_all add: venafiACMRequestCertificate_def zero_Request_def
        split: sum.split)

lemma request_config_failed:
  assumes "json_Unmarshal_VenafiRequestCertificateInput env (APIGatewayProxyRequest.Body request)
             = Inr cr"
      and "DomainName (RequestCertificateInput cr) = Some domainName"
      and "common_GetPolicy env
             (if VenafiRequestCertificateInput.VenafiZone cr = '''' then ''Default''
              else VenafiRequestCertificateInput.VenafiZone cr) = Inr policy"
      and "Policy_ValidateCertificateRequest env policy
             \<lparr>Subject = \<lparr>CommonName = domainName\<rparr>,
              DNSNames = SubjectAlternativeNames (RequestCertificateInput cr),
              CsrOrigin = ServiceGeneratedCSR, \<dots> = Request_zero_more env\<rparr> = None"
      and "external_LoadDefaultAWSConfig env = (awsCfg, Some err)"
  shows "venafiACMRequestCertificate env request =
           ([Call_Unmarshal (APIGatewayProxyRequest.Body request),
             Call_GetPolicy
               (if VenafiRequestCertificateInput.VenafiZone cr = '''' then ''Default''
                else VenafiRequestCertificateInput.VenafiZone cr),
             Call_ValidateCertificateRequest policy
               \<lparr>Subject = \<lparr>CommonName = domainName\<rparr>,
                DNSNames = SubjectAlternativeNames (RequestCertificateInput cr),
                CsrOrigin = ServiceGeneratedCSR, \<dots> = Request_zero_more env\<rparr>,
             Call_LoadDefaultAWSConfig,
             Call_Println (''Error loading client '' @ err @ [CHR 0x0A])],
            Panicked ''invalid memory address or nil pointer dereference'')"
  using assms
  by (cases "VenafiRequestCertificateInput.VenafiZone cr = ''''")
     (simp_all add: venafiACMRequestCertificate_def zero_Request_def)

text \<open>A message of plain characters comes back out of the envelope: for such messages
  the body is the JSON object with the one member \<^verbatim>\<open>msg\<close>, and its value is the message.\<close>

lemma json_string_plain:
  assumes "\<forall>c \<in> set m. plain_char c"
  shows "json_string (m @ CHR 0x22 # rest) = Some (m, rest)"
  using assms by (induction m) (simp_all add: plain_char_def)

lemma envelope_plain:
  assumes "\<forall>c \<in> set m. plain_char c"
  shows "msg_envelope
           (''{ '' @ CHR 0x22 # ''msg'' @ CHR 0x22 # '' : '' @ CHR 0x22 # m @ CHR 0x22 # '' }'')
         = Some m"
proof -
  have key: "json_string (''msg'' @ CHR 0x22 # '' : '' @ CHR 0x22 # m @ CHR 0x22 # '' }'')
               = Some (''msg'', '' : '' @ CHR 0x22 # m @ CHR 0x22 # '' }'')"
    by (rule json_string_plain) (simp add: plain_char_def)
  have val: "json_string (m @ CHR 0x22 # '' }'') = Some (m, '' }'')"
    by (rule json_string_plain [OF assms])
  show ?thesis
    using key val by (simp add: msg_envelope_def expect_def is_ws_def)
qed

text \<open>Running the handlers on the test double.\<close>

lemma target_request_for [simp]: "target (request_for op body) = op"
  by (simp add: target_def request_for_def)

lemma body_request_for [simp]: "APIGatewayProxyRequest.Body (request_for op body) = body"
  by (simp add: request_for_def)

lemmas stub_simps =
  stub_def stub_Unmarshal_issue_def stub_Unmarshal_request_def stub_DecodeString_def
  stub_SetCSR_def stub_GetPolicy_def stub_Validate_def stub_Marshal_def csr_b64_def
  body_issue_def body_issue_strict_def body_issue_ghost_def body_issue_not_base64_def
  body_issue_garbage_def body_request_def body_request_strict_def body_request_ghost_def
  body_request_no_domain_def body_syntax_error_def err_syntax_def zero_Request_def

subsection \<open>The backend is called only after validation\<close>

text \<open>
  C1. For the two gated operations and every body: when the trace of the handler holds a
  call of the backend, then decoding succeeded (for the private-CA operation
  \<^verbatim>\<open>json.Unmarshal\<close>, the base64 decoding and \<^verbatim>\<open>SetCSR\<close>; for the managed-certificate
  operation \<^verbatim>\<open>json.Unmarshal\<close> with a \<^verbatim>\<open>DomainName\<close>), the policy of the zone was resolved
  and the validator accepted the request, and the trace starts with these calls in this
  order, so every call of the backend comes after them. Hence a request that fails to
  decode, or whose policy is not found, or that the policy rejects, makes no call of
  the backend.
\<close>

theorem backend_call_is_gated:
  assumes "list_ex is_Send (fst (ACMPCAHandler env request))"
  shows "(target request = acmpcaIssueCertificate \<longrightarrow>
           (\<exists>cr csr req policy post.
              json_Unmarshal_ACMPCAIssueCertificateRequest env
                (APIGatewayProxyRequest.Body request) = Inr cr \<and>
              base64_DecodeString env (Csr (IssueCertificateInput cr)) = Inr csr \<and>
              Request_SetCSR env (zero_Request (Request_zero_more env)) csr = Inr req \<and>
              common_GetPolicy env
                (if ACMPCAIssueCertificateRequest.VenafiZone cr = '''' then ''Default''
                 else ACMPCAIssueCertificateRequest.VenafiZone cr) = Inr policy \<and>
              Policy_ValidateCertificateRequest env policy req = None \<and>
              fst (ACMPCAHandler env request) =
                [Call_Unmarshal (APIGatewayProxyRequest.Body request),
                 Call_DecodeString (Csr (IssueCertificateInput cr)),
                 Call_SetCSR csr,
                 Call_GetPolicy
                   (if ACMPCAIssueCertificateRequest.VenafiZone cr = '''' then ''Default''
                    else ACMPCAIssueCertificateRequest.VenafiZone cr),
                 Call_ValidateCertificateRequest policy req] @ post))
       \<and> (target request = acmRequestCertificate \<longrightarrow>
           (\<exists>cr domainName policy post.
              json_Unmarshal_VenafiRequestCertificateInput env
                (APIGatewayProxyRequest.Body request) = Inr cr \<and>
              DomainName (RequestCertificateInput cr) = Some domainName \<and>
              common_GetPolicy env
                (if VenafiRequestCertificateInput.VenafiZone cr = '''' then ''Default''
                 else VenafiRequestCertificateInput.VenafiZone cr) = Inr policy \<and>
              Policy_ValidateCertificateRequest env policy
                \<lparr>Subject = \<lparr>CommonName = domainName\<rparr>,
                 DNSNames = SubjectAlternativeNames (RequestCertificateInput cr),
                 CsrOrigin = ServiceGeneratedCSR, \<dots> = Request_zero_more env\<rparr> = None \<and>
              fst (ACMPCAHandler env request) =
                [Call_Unmarshal (APIGatewayProxyRequest.Body request),
                 Call_GetPolicy
                   (if VenafiRequestCertificateInput.VenafiZone cr = '''' then ''Default''
                    else VenafiRequestCertificateInput.VenafiZone cr),
                 Call_ValidateCertificateRequest policy
                   \<lparr>Subject = \<lparr>CommonName = domainName\<rparr>,
                    DNSNames = SubjectAlternativeNames (RequestCertificateInput cr),
                    CsrOrigin = ServiceGeneratedCSR, \<dots> = Request_zero_more env\<rparr>] @ post))"
proof (intro conjI impI)
  assume t: "target request = acmpcaIssueCertificate"
  have sent: "list_ex is_Send (fst (venafiACMPCAIssueCertificateRequest env request))"
    using assms by (simp add: handler_issue [OF t])
  obtain cr where U:
    "json_Unmarshal_ACMPCAIssueCertificateRequest env (APIGatewayProxyRequest.Body request)
       = Inr cr"
    using sent
    by (cases "json_Unmarshal_ACMPCAIssueCertificateRequest env
                 (APIGatewayProxyRequest.Body request)")
       (simp_all add: issue_unmarshal_failed)
  obtain csr where D: "base64_DecodeString env (Csr (IssueCertificateInput cr)) = Inr csr"
    using sent
    by (cases "base64_DecodeString env (Csr (IssueCertificateInput cr))")
       (simp_all add: issue_base64_failed [OF U])
  obtain req where S: "Request_SetCSR env (zero_Request (Request_zero_more env)) csr = Inr req"
    using sent
    by (cases "Request_SetCSR env (zero_Request (Request_zero_more env)) csr")
       (simp_all add: issue_csr_failed [OF U D])
  obtain policy where G:
    "common_GetPolicy env
       (if ACMPCAIssueCertificateRequest.VenafiZone cr = '''' then ''Default''
        else ACMPCAIssueCertificateRequest.VenafiZone cr) = Inr policy"
    using sent
    by (cases "common_GetPolicy env
                 (if ACMPCAIssueCertificateRequest.VenafiZone cr = '''' then ''Default''
                  else ACMPCAIssueCertificateRequest.VenafiZone cr)")
       (simp_all add: issue_policy_failed [OF U D S])
  have V: "Policy_ValidateCertificateRequest env policy req = None"
    using sent
    by (cases "Policy_ValidateCertificateRequest env policy req")
       (simp_all add: issue_rejected [OF U D S G])
  obtain awsCfg cfgErr where L: "external_LoadDefaultAWSConfig env = (awsCfg, cfgErr)"
    by (cases "external_LoadDefaultAWSConfig env")
  have "\<exists>post. fst (venafiACMPCAIssueCertificateRequest env request) =
                [Call_Unmarshal (APIGatewayProxyRequest.Body request),
                 Call_DecodeString (Csr (IssueCertificateInput cr)),
                 Call_SetCSR csr,
                 Call_GetPolicy
                   (if ACMPCAIssueCertificateRequest.VenafiZone cr = '''' then ''Default''
                    else ACMPCAIssueCertificateRequest.VenafiZone cr),
                 Call_ValidateCertificateRequest policy req] @ post"
  proof (cases cfgErr)
    case None
    show ?thesis by (simp add: issue_sent [OF U D S G V L [unfolded None]])
  next
    case (Some err)
    show ?thesis by (simp add: issue_config_failed [OF U D S G V L [unfolded Some]])
  qed
  with U D S G V show "\<exists>cr csr req policy post.
              json_Unmarshal_ACMPCAIssueCertificateRequest env
                (APIGatewayProxyRequest.Body request) = Inr cr \<and>
              base64_DecodeString env (Csr (IssueCertificateInput cr)) = Inr csr \<and>
              Request_SetCSR env (zero_Request (Request_zero_more env)) csr = Inr req \<and>
              common_GetPolicy env
                (if ACMPCAIssueCertificateRequest.VenafiZone cr = '''' then ''Default''
                 else ACMPCAIssueCertificateRequest.VenafiZone cr) = Inr policy \<and>
              Policy_ValidateCertificateRequest env policy req = None \<and>
              fst (ACMPCAHandler env request) =
                [Call_Unmarshal (APIGatewayProxyRequest.Body request),
                 Call_DecodeString (Csr (IssueCertificateInput cr)),
                 Call_SetCSR csr,
                 Call_GetPolicy
                   (if ACMPCAIssueCertificateRequest.VenafiZone cr = '''' then ''Default''
                    else ACMPCAIssueCertificateRequest.VenafiZone cr),
                 Call_ValidateCertificateRequest policy req] @ post"
    unfolding handler_issue [OF t] by blast
next
  assume t: "target request = acmRequestCertificate"
  have sent: "list_ex is_Send (fst (venafiACMRequestCertificate env request))"
    using assms by (simp add: handler_request [OF t])
  obtain cr where U:
    "json_Unmarshal_VenafiRequestCertificateInput env (APIGatewayProxyRequest.Body request)
       = Inr cr"
    using sent
    by (cases "json_Unmarshal_VenafiRequestCertificateInput env
                 (APIGatewayProxyRequest.Body request)")
       (simp_all add: request_unmarshal_failed)
  obtain domainName where N: "DomainName (RequestCertificateInput cr) = Some domainName"
    using sent
    by (cases "DomainName (RequestCertificateInput cr)")
       (simp_all add: request_panicked [OF U])
  obtain policy where G:
    "common_GetPolicy env
       (if VenafiRequestCertificateInput.VenafiZone cr = '''' then ''Default''
        else VenafiRequestCertificateInput.VenafiZone cr) = Inr policy"
    using sent
    by (cases "common_GetPolicy env
                 (if VenafiRequestCertificateInput.VenafiZone cr = '''' then ''Default''
                  else VenafiRequestCertificateInput.VenafiZone cr)")
       (simp_all add: request_policy_failed [OF U N])
  have V: "Policy_ValidateCertificateRequest env policy
             \<lparr>Subject = \<lparr>CommonName = domainName\<rparr>,
              DNSNames = SubjectAlternativeNames (RequestCertificateInput cr),
              CsrOrigin = ServiceGeneratedCSR, \<dots> = Request_zero_more env\<rparr> = None"
    using sent
    by (cases "Policy_ValidateCertificateRequest env policy
                 \<lparr>Subject = \<lparr>CommonName = domainName\<rparr>,
                  DNSNames = SubjectAlternativeNames (RequestCertificateInput cr),
                  CsrOrigin = ServiceGeneratedCSR, \<dots> = Request_zero_more env\<rparr>")
       (simp_all add: request_rejected [OF U N G])
  obtain awsCfg cfgErr where L: "external_LoadDefaultAWSConfig env = (awsCfg, cfgErr)"
    by (cases "external_LoadDefaultAWSConfig env")
  have "\<exists>post. fst (venafiACMRequestCertificate env request) =
                [Call_Unmarshal (APIGatewayProxyRequest.Body request),
                 Call_GetPolicy
                   (if VenafiRequestCertificateInput.VenafiZone cr = '''' then ''Default''
                    else VenafiRequestCertificateInput.VenafiZone cr),
                 Call_ValidateCertificateRequest policy
                   \<lparr>Subject = \<lparr>CommonName = domainName\<rparr>,
                    DNSNames = SubjectAlternativeNames (RequestCertificateInput cr),
                    CsrOrigin = ServiceGeneratedCSR, \<dots> = Request_zero_more env\<rparr>] @ post"
  proof (cases cfgErr)
    case None
    show ?thesis by (simp add: request_sent [OF U N G V L [unfolded None]])
  next
    case (Some err)
    show ?thesis by (simp add: request_config_failed [OF U N G V L [unfolded Some]])
  qed
  with U N G V show "\<exists>cr domainName policy post.
              json_Unmarshal_VenafiRequestCertificateInput env
                (APIGatewayProxyRequest.Body request) = Inr cr \<and>
              DomainName (RequestCertificateInput cr) = Some domainName \<and>
              common_GetPolicy env
                (if VenafiRequestCertificateInput.VenafiZone cr = '''' then ''Default''
                 else VenafiRequestCertificateInput.VenafiZone cr) = Inr policy \<and>
              Policy_ValidateCertificateRequest env policy
                \<lparr>Subject = \<lparr>CommonName = domainName\<rparr>,
                 DNSNames = SubjectAlternativeNames (RequestCertificateInput cr),
                 CsrOrigin = ServiceGeneratedCSR, \<dots> = Request_zero_more env\<rparr> = None \<and>
              fst (ACMPCAHandler env request) =
                [Call_Unmarshal (APIGatewayProxyRequest.Body request),
                 Call_GetPolicy
                   (if VenafiRequestCertificateInput.VenafiZone cr = '''' then ''Default''
                    else VenafiRequestCertificateInput.VenafiZone cr),
                 Call_ValidateCertificateRequest policy
                   \<lparr>Subject = \<lparr>CommonName = domainName\<rparr>,
                    DNSNames = SubjectAlternativeNames (RequestCertificateInput cr),
                    CsrOrigin = ServiceGeneratedCSR, \<dots> = Request_zero_more env\<rparr>] @ post"
    unfolding handler_request [OF t] by blast
qed

theorem backend_call_is_gated_witness:
  "list_ex is_Send
     (fst (ACMPCAHandler (stub (''us-east-1'', None) None)
             (request_for acmpcaIssueCertificate body_issue)))
   \<and> (\<exists>post.
         fst (ACMPCAHandler (stub (''us-east-1'', None) None)
                (request_for acmpcaIssueCertificate body_issue)) =
           [Call_Unmarshal body_issue,
            Call_DecodeString csr_b64,
            Call_SetCSR ''CN=test.example.com'',
            Call_GetPolicy ''Default'',
            Call_ValidateCertificateRequest [''test.example.com'']
              \<lparr>Subject = \<lparr>CommonName = ''test.example.com''\<rparr>, DNSNames = [],
               CsrOrigin = LocalGeneratedCSR\<rparr>] @ post)"
proof -
  have sent: "list_ex is_Send
     (fst (ACMPCAHandler (stub (''us-east-1'', None) None)
             (request_for acmpcaIssueCertificate body_issue)))"
    by (simp add: handler_issue venafiACMPCAIssueCertificateRequest_def stub_simps)
  from backend_call_is_gated [OF sent] sent show ?thesis
    by (simp add: stub_simps) 
qed

subsection \<open>What the backend receives and what the caller gets back\<close>

text \<open>
  C2, as the code has it. For the two gated operations: when the body decodes, the policy
  is found, the validator accepts the request and the AWS configuration loads, the
  handler calls the backend exactly once, with the native input that
  \<^verbatim>\<open>json.Unmarshal\<close> decoded from the body (the embedded struct, not the request built for the
  validator); and when the backend answers and \<^verbatim>\<open>json.Marshal\<close> serialises the answer, the
  handler returns status 200 with that serialisation as the body.
\<close>

theorem backend_receives_native_payload:
  "(\<forall>cr csr req policy awsCfg.
      target request = acmpcaIssueCertificate \<and>
      json_Unmarshal_ACMPCAIssueCertificateRequest env
        (APIGatewayProxyRequest.Body request) = Inr cr \<and>
      base64_DecodeString env (Csr (IssueCertificateInput cr)) = Inr csr \<and>
      Request_SetCSR env (zero_Request (Request_zero_more env)) csr = Inr req \<and>
      common_GetPolicy env
        (if ACMPCAIssueCertificateRequest.VenafiZone cr = '''' then ''Default''
         else ACMPCAIssueCertificateRequest.VenafiZone cr) = Inr policy \<and>
      Policy_ValidateCertificateRequest env policy req = None \<and>
      external_LoadDefaultAWSConfig env = (awsCfg, None) \<longrightarrow>
      filter is_Send (fst (ACMPCAHandler env request)) =
        [Call_IssueCertificate_Send awsCfg (IssueCertificateInput cr)] \<and>
      (\<forall>csrResp js.
         acmpca_IssueCertificate_Send env awsCfg (IssueCertificateInput cr) = Inr csrResp \<and>
         json_Marshal_IssueCertificate env csrResp = Inr js \<longrightarrow>
         snd (ACMPCAHandler env request) = Returned \<lparr>StatusCode = StatusOK, Body = js\<rparr> None))
   \<and> (\<forall>cr domainName policy awsCfg.
      target request = acmRequestCertificate \<and>
      json_Unmarshal_VenafiRequestCertificateInput env
        (APIGatewayProxyRequest.Body request) = Inr cr \<and>
      DomainName (RequestCertificateInput cr) = Some domainName \<and>
      common_GetPolicy env
        (if VenafiRequestCertificateInput.VenafiZone cr = '''' then ''Default''
         else VenafiRequestCertificateInput.VenafiZone cr) = Inr policy \<and>
      Policy_ValidateCertificateRequest env policy
        \<lparr>Subject = \<lparr>CommonName = domainName\<rparr>,
         DNSNames = SubjectAlternativeNames (RequestCertificateInput cr),
         CsrOrigin = ServiceGeneratedCSR, \<dots> = Request_zero_more env\<rparr> = None \<and>
      external_LoadDefaultAWSConfig env = (awsCfg, None) \<longrightarrow>
      filter is_Send (fst (ACMPCAHandler env request)) =
        [Call_RequestCertificate_Send awsCfg (RequestCertificateInput cr)] \<and>
      (\<forall>certResp js.
         acm_RequestCertificate_Send env awsCfg (RequestCertificateInput cr) = Inr certResp \<and>
         json_Marshal_RequestCertificate env certResp = Inr js \<longrightarrow>
         snd (ACMPCAHandler env request) = Returned \<lparr>StatusCode = StatusOK, Body = js\<rparr> None))
   \<and> StatusOK = 200"
proof (intro conjI allI impI)
  fix cr csr req policy awsCfg
  assume h: "target request = acmpcaIssueCertificate \<and>
      json_Unmarshal_ACMPCAIssueCertificateRequest env
        (APIGatewayProxyRequest.Body request) = Inr cr \<and>
      base64_DecodeString env (Csr (IssueCertificateInput cr)) = Inr csr \<and>
      Request_SetCSR env (zero_Request (Request_zero_more env)) csr = Inr req \<and>
      common_GetPolicy env
        (if ACMPCAIssueCertificateRequest.VenafiZone cr = '''' then ''Default''
         else ACMPCAIssueCertificateRequest.VenafiZone cr) = Inr policy \<and>
      Policy_ValidateCertificateRequest env policy req = None \<and>
      external_LoadDefaultAWSConfig env = (awsCfg, None)"
  then have t: "target request = acmpcaIssueCertificate" by simp
  have run: "ACMPCAHandler env request =
           ([Call_Unmarshal (APIGatewayProxyRequest.Body request),
             Call_DecodeString (Csr (IssueCertificateInput cr)),
             Call_SetCSR csr,
             Call_GetPolicy
               (if ACMPCAIssueCertificateRequest.VenafiZone cr = '''' then ''Default''
                else ACMPCAIssueCertificateRequest.VenafiZone cr),
             Call_ValidateCertificateRequest policy req,
             Call_LoadDefaultAWSConfig,
             Call_IssueCertificate_Send awsCfg (IssueCertificateInput cr)]
            @ (case acmpca_IssueCertificate_Send env awsCfg (IssueCertificateInput cr) of
                 Inl err \<Rightarrow> []
               | Inr csrResp \<Rightarrow> [Call_Marshal_IssueCertificate csrResp]),
            case acmpca_IssueCertificate_Send env awsCfg (IssueCertificateInput cr) of
              Inl err \<Rightarrow>
                clientError StatusInternalServerError
                  (''could not get certificate response: '' @ err)
            | Inr csrResp \<Rightarrow>
                (case json_Marshal_IssueCertificate env csrResp of
                   Inl err \<Rightarrow>
                     clientError StatusUnprocessableEntity
                       (''Error marshaling response JSON for target '' @ acmpcaIssueCertificate
                          @ '': '' @ err)
                 | Inr respoBodyJSON \<Rightarrow>
                     Returned \<lparr>StatusCode = StatusOK, Body = respoBodyJSON\<rparr> None))"
    unfolding handler_issue [OF t] using h by (intro issue_sent) simp_all
  show "filter is_Send (fst (ACMPCAHandler env request)) =
        [Call_IssueCertificate_Send awsCfg (IssueCertificateInput cr)]"
    by (simp add: run split: sum.split)
  fix csrResp js
  assume "acmpca_IssueCertificate_Send env awsCfg (IssueCertificateInput cr) = Inr csrResp \<and>
         json_Marshal_IssueCertificate env csrResp = Inr js"
  then show "snd (ACMPCAHandler env request) = Returned \<lparr>StatusCode = StatusOK, Body = js\<rparr> None"
    by (simp add: run)
next
  fix cr domainName policy awsCfg
  assume h: "target request = acmRequestCertificate \<and>
      json_Unmarshal_VenafiRequestCertificateInput env
        (APIGatewayProxyRequest.Body request) = Inr cr \<and>
      DomainName (RequestCertificateInput cr) = Some domainName \<and>
      common_GetPolicy env
        (if VenafiRequestCertificateInput.VenafiZone cr = '''' then ''Default''
         else VenafiRequestCertificateInput.VenafiZone cr) = Inr policy \<and>
      Policy_ValidateCertificateRequest env policy
        \<lparr>Subject = \<lparr>CommonName = domainName\<rparr>,
         DNSNames = SubjectAlternativeNames (RequestCertificateInput cr),
         CsrOrigin = ServiceGeneratedCSR, \<dots> = Request_zero_more env\<rparr> = None \<and>
      external_LoadDefaultAWSConfig env = (awsCfg, None)"
  then have t: "target request = acmRequestCertificate" by simp
  have run: "ACMPCAHandler env request =
           ([Call_Unmarshal (APIGatewayProxyRequest.Body request),
             Call_GetPolicy
               (if VenafiRequestCertificateInput.VenafiZone cr = '''' then ''Default''
                else VenafiRequestCertificateInput.VenafiZone cr),
             Call_ValidateCertificateRequest policy
               \<lparr>Subject = \<lparr>CommonName = domainName\<rparr>,
                DNSNames = SubjectAlternativeNames (RequestCertificateInput cr),
                CsrOrigin = ServiceGeneratedCSR, \<dots> = Request_zero_more env\<rparr>,
             Call_LoadDefaultAWSConfig,
             Call_RequestCertificate_Send awsCfg (RequestCertificateInput cr)]
            @ (case acm_RequestCertificate_Send env awsCfg (RequestCertificateInput cr) of
                 Inl err \<Rightarrow> []
               | Inr certResp \<Rightarrow> [Call_Marshal_RequestCertificate certResp]),
            case acm_RequestCertificate_Send env awsCfg (RequestCertificateInput cr) of
              Inl err \<Rightarrow>
                clientError StatusInternalServerError
                  (''could not get certificate response: '' @ err)
            | Inr certResp \<Rightarrow>
                (case json_Marshal_RequestCertificate env certResp of
                   Inl err \<Rightarrow>
                     clientError StatusUnprocessableEntity
                       (''Error marshaling response JSON: '' @ err)
                 | Inr respoBodyJSON \<Rightarrow>
                     Returned \<lparr>StatusCode = StatusOK, Body = respoBodyJSON\<rparr> None))"
    unfolding handler_request [OF t] using h by (intro request_sent) simp_all
  show "filter is_Send (fst (ACMPCAHandler env request)) =
        [Call_RequestCertificate_Send awsCfg (RequestCertificateInput cr)]"
    by (simp add: run split: sum.split)
  fix certResp js
  assume "acm_RequestCertificate_Send env awsCfg (RequestCertificateInput cr) = Inr certResp \<and>
         json_Marshal_RequestCertificate env certResp = Inr js"
  then show "snd (ACMPCAHandler env request) = Returned \<lparr>StatusCode = StatusOK, Body = js\<rparr> None"
    by (simp add: run)
next
  show "StatusOK = 200" by (simp add: StatusOK_def)
qed

theorem backend_receives_native_payload_witness:
  "filter is_Send
     (fst (ACMPCAHandler (stub (''us-east-1'', None) None)
             (request_for acmpcaIssueCertificate body_issue))) =
     [Call_IssueCertificate_Send ''us-east-1'' \<lparr>Csr = csr_b64\<rparr>]
   \<and> snd (ACMPCAHandler (stub (''us-east-1'', None) None)
            (request_for acmpcaIssueCertificate body_issue)) =
       Returned \<lparr>StatusCode = 200, Body = issued_json\<rparr> None
   \<and> filter is_Send
       (fst (ACMPCAHandler (stub (''us-east-1'', None) None)
               (request_for acmRequestCertificate body_request))) =
       [Call_RequestCertificate_Send ''us-east-1''
          \<lparr>DomainName = Some ''test.example.com'', SubjectAlternativeNames = []\<rparr>]
   \<and> snd (ACMPCAHandler (stub (''us-east-1'', None) None)
            (request_for acmRequestCertificate body_request)) =
       Returned \<lparr>StatusCode = 200, Body = requested_json\<rparr> None"
  using backend_receives_native_payload
          [of "request_for acmpcaIssueCertificate body_issue"
              "stub (''us-east-1'', None) None"]
        backend_receives_native_payload
          [of "request_for acmRequestCertificate body_request"
              "stub (''us-east-1'', None) None"]
  unfolding StatusOK_def
  by (simp add: stub_simps acmpcaIssueCertificate_def acmRequestCertificate_def
        issued_json_def requested_json_def)

text \<open>
  C2 as the specification states it does not hold. A private-CA request that the policy
  accepts is not sent to the backend when \<^verbatim>\<open>external.LoadDefaultAWSConfig\<close> fails: the
  handler returns status 500 after the call that loads the configuration. And a
  backend answer that \<^verbatim>\<open>json.Marshal\<close> rejects gives status 422, not 200.
\<close>

theorem validated_request_without_backend_call:
  "ACMPCAHandler (stub ('''', Some ''no region'') None)
     (request_for acmpcaIssueCertificate body_issue) =
     ([Call_Unmarshal body_issue,
       Call_DecodeString csr_b64,
       Call_SetCSR ''CN=test.example.com'',
       Call_GetPolicy ''Default'',
       Call_ValidateCertificateRequest [''test.example.com'']
         \<lparr>Subject = \<lparr>CommonName = ''test.example.com''\<rparr>, DNSNames = [],
          CsrOrigin = LocalGeneratedCSR\<rparr>,
       Call_LoadDefaultAWSConfig],
      clientError 500 ''Error loading client: no region'')
   \<and> Policy_ValidateCertificateRequest (stub ('''', Some ''no region'') None)
         [''test.example.com'']
         \<lparr>Subject = \<lparr>CommonName = ''test.example.com''\<rparr>, DNSNames = [],
          CsrOrigin = LocalGeneratedCSR\<rparr> = None
   \<and> ACMPCAHandler (stub (''us-east-1'', None) (Some ''json: unsupported type''))
         (request_for acmpcaIssueCertificate body_issue) =
       ([Call_Unmarshal body_issue,
         Call_DecodeString csr_b64,
         Call_SetCSR ''CN=test.example.com'',
         Call_GetPolicy ''Default'',
         Call_ValidateCertificateRequest [''test.example.com'']
           \<lparr>Subject = \<lparr>CommonName = ''test.example.com''\<rparr>, DNSNames = [],
            CsrOrigin = LocalGeneratedCSR\<rparr>,
         Call_LoadDefaultAWSConfig,
         Call_IssueCertificate_Send ''us-east-1'' \<lparr>Csr = csr_b64\<rparr>,
         Call_Marshal_IssueCertificate ''arn:aws:acm-pca:certificate/1''],
        clientError 422
          (''Error marshaling response JSON for target ACMPrivateCA.IssueCertificate: ''
             @ ''json: unsupported type''))"
  by (simp add: handler_issue venafiACMPCAIssueCertificateRequest_def stub_simps
        StatusInternalServerError_def StatusUnprocessableEntity_def
        acmpcaIssueCertificate_def)

subsection \<open>Decode failures of the private-CA operation\<close>

text \<open>
  C3. For the private-CA issuance operation the response of a decode failure has status
  422 and the body \<^verbatim>\<open>{ "msg" : "<message>" }\<close>: when \<^verbatim>\<open>json.Unmarshal\<close> fails the message is
  the one \<open>errUnmarshalJson\<close> formats from the target and the error; when the base64
  decoding of the \<^verbatim>\<open>Csr\<close> field fails it is \<^verbatim>\<open>Can`t decode csr from base64\<close>; when \<^verbatim>\<open>SetCSR\<close>
  rejects the decoded bytes it is \<^verbatim>\<open>Can't parse certificate request\<close>. In each case the
  trace holds the decoding calls only: the policy store and the backend are not called.
\<close>

theorem issue_decode_failures:
  assumes "target request = acmpcaIssueCertificate"
  shows "(\<forall>err.
            json_Unmarshal_ACMPCAIssueCertificateRequest env
              (APIGatewayProxyRequest.Body request) = Inl err \<longrightarrow>
            ACMPCAHandler env request =
              ([Call_Unmarshal (APIGatewayProxyRequest.Body request)],
               Returned
                 \<lparr>StatusCode = 422,
                  Body = ''{ '' @ CHR 0x22 # ''msg'' @ CHR 0x22 # '' : '' @ CHR 0x22 #
                         errUnmarshalJson env acmpcaIssueCertificate err @ CHR 0x22 # '' }''\<rparr> None))
       \<and> (\<forall>cr err.
            json_Unmarshal_ACMPCAIssueCertificateRequest env
              (APIGatewayProxyRequest.Body request) = Inr cr \<and>
            base64_DecodeString env (Csr (IssueCertificateInput cr)) = Inl err \<longrightarrow>
            ACMPCAHandler env request =
              ([Call_Unmarshal (APIGatewayProxyRequest.Body request),
                Call_DecodeString (Csr (IssueCertificateInput cr))],
               Returned
                 \<lparr>StatusCode = 422,
                  Body = ''{ '' @ CHR 0x22 # ''msg'' @ CHR 0x22 # '' : '' @ CHR 0x22 #
                         ''Can`t decode csr from base64'' @ CHR 0x22 # '' }''\<rparr> None))
       \<and> (\<forall>cr csr err.
            json_Unmarshal_ACMPCAIssueCertificateRequest env
              (APIGatewayProxyRequest.Body request) = Inr cr \<and>
            base64_DecodeString env (Csr (IssueCertificateInput cr)) = Inr csr \<and>
            Request_SetCSR env (zero_Request (Request_zero_more env)) csr = Inl err \<longrightarrow>
            ACMPCAHandler env request =
              ([Call_Unmarshal (APIGatewayProxyRequest.Body request),
                Call_DecodeString (Csr (IssueCertificateInput cr)),
                Call_SetCSR csr],
               Returned
                 \<lparr>StatusCode = 422,
                  Body = ''{ '' @ CHR 0x22 # ''msg'' @ CHR 0x22 # '' : '' @ CHR 0x22 #
                         ''Can't parse certificate request'' @ CHR 0x22 # '' }''\<rparr> None))"
  unfolding handler_issue [OF assms]
  by (intro conjI allI impI)
     (simp_all add: issue_unmarshal_failed issue_base64_failed issue_csr_failed)

theorem issue_decode_failures_witness:
  "target (request_for acmpcaIssueCertificate body_syntax_error) = acmpcaIssueCertificate
   \<and> ACMPCAHandler (stub (''us-east-1'', None) None)
         (request_for acmpcaIssueCertificate body_syntax_error) =
       ([Call_Unmarshal body_syntax_error],
        Returned
          \<lparr>StatusCode = 422,
           Body = ''{ '' @ CHR 0x22 # ''msg'' @ CHR 0x22 # '' : '' @ CHR 0x22 #
                  ''Error unmarshaling JSON for target ACMPrivateCA.IssueCertificate: '' @ err_syntax @ CHR 0x22 # '' }''\<rparr> None)
   \<and> ACMPCAHandler (stub (''us-east-1'', None) None)
         (request_for acmpcaIssueCertificate body_issue_not_base64) =
       ([Call_Unmarshal body_issue_not_base64, Call_DecodeString ''not-base64!!''],
        Returned
          \<lparr>StatusCode = 422,
           Body = ''{ '' @ CHR 0x22 # ''msg'' @ CHR 0x22 # '' : '' @ CHR 0x22 #
                  ''Can`t decode csr from base64'' @ CHR 0x22 # '' }''\<rparr> None)
   \<and> ACMPCAHandler (stub (''us-east-1'', None) None)
         (request_for acmpcaIssueCertificate body_issue_garbage) =
       ([Call_Unmarshal body_issue_garbage, Call_DecodeString ''Z2FyYmFnZQ=='',
         Call_SetCSR ''garbage''],
        Returned
          \<lparr>StatusCode = 422,
           Body = ''{ '' @ CHR 0x22 # ''msg'' @ CHR 0x22 # '' : '' @ CHR 0x22 #
                  ''Can't parse certificate request'' @ CHR 0x22 # '' }''\<rparr> None)"
  using issue_decode_failures
          [of "request_for acmpcaIssueCertificate body_syntax_error"
              "stub (''us-east-1'', None) None"]
        issue_decode_failures
          [of "request_for acmpcaIssueCertificate body_issue_not_base64"
              "stub (''us-east-1'', None) None"]
        issue_decode_failures
          [of "request_for acmpcaIssueCertificate body_issue_garbage"
              "stub (''us-east-1'', None) None"]
  by (simp add: stub_simps acmpcaIssueCertificate_def)

subsection \<open>A request the policy rejects\<close>

text \<open>
  C4. For the two gated operations: when the body decodes, the policy of the zone is
  found and the validator rejects the request with a reason, the handler returns status
  403 and the body \<^verbatim>\<open>{ "msg" : "<reason>" }\<close>, in which the bytes of the reason stand between
  the quotation marks as the validator gave them, nothing added, removed or escaped;
  and the trace ends with the call of the validator: the configuration is not loaded
  and the backend is not called. Read as JSON, the body gives back exactly the reason
  when the reason has plain characters only (no quotation mark, no reverse solidus, no
  control character); for other reasons the bytes are still the reason's, but the body
  is not the JSON encoding of the reason.
\<close>

theorem policy_violation_is_forbidden:
  "(\<forall>cr csr req policy reason.
      target request = acmpcaIssueCertificate \<and>
      json_Unmarshal_ACMPCAIssueCertificateRequest env
        (APIGatewayProxyRequest.Body request) = Inr cr \<and>
      base64_DecodeString env (Csr (IssueCertificateInput cr)) = Inr csr \<and>
      Request_SetCSR env (zero_Request (Request_zero_more env)) csr = Inr req \<and>
      common_GetPolicy env
        (if ACMPCAIssueCertificateRequest.VenafiZone cr = '''' then ''Default''
         else ACMPCAIssueCertificateRequest.VenafiZone cr) = Inr policy \<and>
      Policy_ValidateCertificateRequest env policy req = Some reason \<longrightarrow>
      ACMPCAHandler env request =
        ([Call_Unmarshal (APIGatewayProxyRequest.Body request),
          Call_DecodeString (Csr (IssueCertificateInput cr)),
          Call_SetCSR csr,
          Call_GetPolicy
            (if ACMPCAIssueCertificateRequest.VenafiZone cr = '''' then ''Default''
             else ACMPCAIssueCertificateRequest.VenafiZone cr),
          Call_ValidateCertificateRequest policy req],
         Returned
           \<lparr>StatusCode = 403,
            Body = ''{ '' @ CHR 0x22 # ''msg'' @ CHR 0x22 # '' : '' @ CHR 0x22 #
                   reason @ CHR 0x22 # '' }''\<rparr> None))
   \<and> (\<forall>cr domainName policy reason.
      target request = acmRequestCertificate \<and>
      json_Unmarshal_VenafiRequestCertificateInput env
        (APIGatewayProxyRequest.Body request) = Inr cr \<and>
      DomainName (RequestCertificateInput cr) = Some domainName \<and>
      common_GetPolicy env
        (if VenafiRequestCertificateInput.VenafiZone cr = '''' then ''Default''
         else VenafiRequestCertificateInput.VenafiZone cr) = Inr policy \<and>
      Policy_ValidateCertificateRequest env policy
        \<lparr>Subject = \<lparr>CommonName = domainName\<rparr>,
         DNSNames = SubjectAlternativeNames (RequestCertificateInput cr),
         CsrOrigin = ServiceGeneratedCSR, \<dots> = Request_zero_more env\<rparr> = Some reason \<longrightarrow>
      ACMPCAHandler env request =
        ([Call_Unmarshal (APIGatewayProxyRequest.Body request),
          Call_GetPolicy
            (if VenafiRequestCertificateInput.VenafiZone cr = '''' then ''Default''
             else VenafiRequestCertificateInput.VenafiZone cr),
          Call_ValidateCertificateRequest policy
            \<lparr>Subject = \<lparr>CommonName = domainName\<rparr>,
             DNSNames = SubjectAlternativeNames (RequestCertificateInput cr),
             CsrOrigin = ServiceGeneratedCSR, \<dots> = Request_zero_more env\<rparr>],
         Returned
           \<lparr>StatusCode = 403,
            Body = ''{ '' @ CHR 0x22 # ''msg'' @ CHR 0x22 # '' : '' @ CHR 0x22 #
                   reason @ CHR 0x22 # '' }''\<rparr> None))
   \<and> (\<forall>reason.
      (\<forall>c \<in> set reason. plain_char c) \<longrightarrow>
      msg_envelope
        (''{ '' @ CHR 0x22 # ''msg'' @ CHR 0x22 # '' : '' @ CHR 0x22 #
         reason @ CHR 0x22 # '' }'') = Some reason)"
proof (intro conjI allI impI)
  fix cr csr req policy reason
  assume h: "target request = acmpcaIssueCertificate \<and>
      json_Unmarshal_ACMPCAIssueCertificateRequest env
        (APIGatewayProxyRequest.Body request) = Inr cr \<and>
      base64_DecodeString env (Csr (IssueCertificateInput cr)) = Inr csr \<and>
      Request_SetCSR env (zero_Request (Request_zero_more env)) csr = Inr req \<and>
      common_GetPolicy env
        (if ACMPCAIssueCertificateRequest.VenafiZone cr = '''' then ''Default''
         else ACMPCAIssueCertificateRequest.VenafiZone cr) = Inr policy \<and>
      Policy_ValidateCertificateRequest env policy req = Some reason"
  then have t: "target request = acmpcaIssueCertificate" by simp
  from h show "ACMPCAHandler env request =
        ([Call_Unmarshal (APIGatewayProxyRequest.Body request),
          Call_DecodeString (Csr (IssueCertificateInput cr)),
          Call_SetCSR csr,
          Call_GetPolicy
            (if ACMPCAIssueCertificateRequest.VenafiZone cr = '''' then ''Default''
             else ACMPCAIssueCertificateRequest.VenafiZone cr),
          Call_ValidateCertificateRequest policy req],
         Returned
           \<lparr>StatusCode = 403,
            Body = ''{ '' @ CHR 0x22 # ''msg'' @ CHR 0x22 # '' : '' @ CHR 0x22 #
                   reason @ CHR 0x22 # '' }''\<rparr> None)"
    unfolding handler_issue [OF t] by (intro issue_rejected) simp_all
next
  fix cr domainName policy reason
  assume h: "target request = acmRequestCertificate \<and>
      json_Unmarshal_VenafiRequestCertificateInput env
        (APIGatewayProxyRequest.Body request) = Inr cr \<and>
      DomainName (RequestCertificateInput cr) = Some domainName \<and>
      common_GetPolicy env
        (if VenafiRequestCertificateInput.VenafiZone cr = '''' then ''Default''
         else VenafiRequestCertificateInput.VenafiZone cr) = Inr policy \<and>
      Policy_ValidateCertificateRequest env policy
        \<lparr>Subject = \<lparr>CommonName = domainName\<rparr>,
         DNSNames = SubjectAlternativeNames (RequestCertificateInput cr),
         CsrOrigin = ServiceGeneratedCSR, \<dots> = Request_zero_more env\<rparr> = Some reason"
  then have t: "target request = acmRequestCertificate" by simp
  from h show "ACMPCAHandler env request =
        ([Call_Unmarshal (APIGatewayProxyRequest.Body request),
          Call_GetPolicy
            (if VenafiRequestCertificateInput.VenafiZone cr = '''' then ''Default''
             else VenafiRequestCertificateInput.VenafiZone cr),
          Call_ValidateCertificateRequest policy
            \<lparr>Subject = \<lparr>CommonName = domainName\<rparr>,
             DNSNames = SubjectAlternativeNames (RequestCertificateInput cr),
             CsrOrigin = ServiceGeneratedCSR, \<dots> = Request_zero_more env\<rparr>],
         Returned
           \<lparr>StatusCode = 403,
            Body = ''{ '' @ CHR 0x22 # ''msg'' @ CHR 0x22 # '' : '' @ CHR 0x22 #
                   reason @ CHR 0x22 # '' }''\<rparr> None)"
    unfolding handler_request [OF t] by (intro request_rejected) simp_all
next
  fix reason :: string
  assume "\<forall>c \<in> set reason. plain_char c"
  then show "msg_envelope
        (''{ '' @ CHR 0x22 # ''msg'' @ CHR 0x22 # '' : '' @ CHR 0x22 #
         reason @ CHR 0x22 # '' }'') = Some reason"
    by (rule envelope_plain)
qed

theorem policy_violation_is_forbidden_witness:
  "ACMPCAHandler (stub (''us-east-1'', None) None)
     (request_for acmpcaIssueCertificate body_issue_strict) =
     ([Call_Unmarshal body_issue_strict,
       Call_DecodeString csr_b64,
       Call_SetCSR ''CN=test.example.com'',
       Call_GetPolicy ''Strict'',
       Call_ValidateCertificateRequest [''www.other.com'']
         \<lparr>Subject = \<lparr>CommonName = ''test.example.com''\<rparr>, DNSNames = [],
          CsrOrigin = LocalGeneratedCSR\<rparr>],
      Returned
        \<lparr>StatusCode = 403,
         Body = ''{ '' @ CHR 0x22 # ''msg'' @ CHR 0x22 # '' : '' @ CHR 0x22 #
                ''common name test.example.com is not allowed'' @ CHR 0x22 # '' }''\<rparr> None)
   \<and> ACMPCAHandler (stub (''us-east-1'', None) None)
     (request_for acmRequestCertificate body_request_strict) =
     ([Call_Unmarshal body_request_strict,
       Call_GetPolicy ''Strict'',
       Call_ValidateCertificateRequest [''www.other.com'']
         \<lparr>Subject = \<lparr>CommonName = ''test.example.com''\<rparr>, DNSNames = [],
          CsrOrigin = ServiceGeneratedCSR\<rparr>],
      Returned
        \<lparr>StatusCode = 403,
         Body = ''{ '' @ CHR 0x22 # ''msg'' @ CHR 0x22 # '' : '' @ CHR 0x22 #
                ''common name test.example.com is not allowed'' @ CHR 0x22 # '' }''\<rparr> None)
   \<and> msg_envelope
         (''{ '' @ CHR 0x22 # ''msg'' @ CHR 0x22 # '' : '' @ CHR 0x22 #
          ''common name test.example.com is not allowed'' @ CHR 0x22 # '' }'')
       = Some ''common name test.example.com is not allowed''"
proof -
  have runs: "ACMPCAHandler (stub (''us-east-1'', None) None)
     (request_for acmpcaIssueCertificate body_issue_strict) =
     ([Call_Unmarshal body_issue_strict,
       Call_DecodeString csr_b64,
       Call_SetCSR ''CN=test.example.com'',
       Call_GetPolicy ''Strict'',
       Call_ValidateCertificateRequest [''www.other.com'']
         \<lparr>Subject = \<lparr>CommonName = ''test.example.com''\<rparr>, DNSNames = [],
          CsrOrigin = LocalGeneratedCSR\<rparr>],
      Returned
        \<lparr>StatusCode = 403,
         Body = ''{ '' @ CHR 0x22 # ''msg'' @ CHR 0x22 # '' : '' @ CHR 0x22 #
                ''common name test.example.com is not allowed'' @ CHR 0x22 # '' }''\<rparr> None)
   \<and> ACMPCAHandler (stub (''us-east-1'', None) None)
     (request_for acmRequestCertificate body_request_strict) =
     ([Call_Unmarshal body_request_strict,
       Call_GetPolicy ''Strict'',
       Call_ValidateCertificateRequest [''www.other.com'']
         \<lparr>Subject = \<lparr>CommonName = ''test.example.com''\<rparr>, DNSNames = [],
          CsrOrigin = ServiceGeneratedCSR\<rparr>],
      Returned
        \<lparr>StatusCode = 403,
         Body = ''{ '' @ CHR 0x22 # ''msg'' @ CHR 0x22 # '' : '' @ CHR 0x22 #
                ''common name test.example.com is not allowed'' @ CHR 0x22 # '' }''\<rparr> None)"
    using policy_violation_is_forbidden
            [of "request_for acmpcaIssueCertificate body_issue_strict"
                "stub (''us-east-1'', None) None", THEN conjunct1]
          policy_violation_is_forbidden
            [of "request_for acmRequestCertificate body_request_strict"
                "stub (''us-east-1'', None) None", THEN conjunct2, THEN conjunct1]
    by (simp add: stub_simps acmpcaIssueCertificate_def acmRequestCertificate_def)
  have plain: "\<forall>c \<in> set ''common name test.example.com is not allowed''. plain_char c"
    by (simp add: plain_char_def)
  have reads: "msg_envelope
         (''{ '' @ CHR 0x22 # ''msg'' @ CHR 0x22 # '' : '' @ CHR 0x22 #
          ''common name test.example.com is not allowed'' @ CHR 0x22 # '' }'')
       = Some ''common name test.example.com is not allowed''"
    using policy_violation_is_forbidden
            [of "request_for acmpcaIssueCertificate body_issue_strict"
                "stub (''us-east-1'', None) None", THEN conjunct2, THEN conjunct2,
             THEN spec, THEN mp, OF plain]
    by simp
  from runs reads show ?thesis by simp
qed

subsection \<open>A zone whose policy cannot be resolved\<close>

text \<open>
  C5. For the two gated operations: when the body decodes and \<^verbatim>\<open>common.GetPolicy\<close> fails,
  the handler returns status 424 (failed dependency) and the body
  \<^verbatim>\<open>{ "msg" : "Failed get policy from database: <error>" }\<close>, and the trace ends with the call
  of the policy store: the validator and the backend are not called. The response
  differs from the one the same handler gives when the validator rejects the request,
  which has status 403.
\<close>

theorem policy_resolution_failure:
  "(\<forall>cr csr req err.
      target request = acmpcaIssueCertificate \<and>
      json_Unmarshal_ACMPCAIssueCertificateRequest env
        (APIGatewayProxyRequest.Body request) = Inr cr \<and>
      base64_DecodeString env (Csr (IssueCertificateInput cr)) = Inr csr \<and>
      Request_SetCSR env (zero_Request (Request_zero_more env)) csr = Inr req \<and>
      common_GetPolicy env
        (if ACMPCAIssueCertificateRequest.VenafiZone cr = '''' then ''Default''
         else ACMPCAIssueCertificateRequest.VenafiZone cr) = Inl err \<longrightarrow>
      ACMPCAHandler env request =
        ([Call_Unmarshal (APIGatewayProxyRequest.Body request),
          Call_DecodeString (Csr (IssueCertificateInput cr)),
          Call_SetCSR csr,
          Call_GetPolicy
            (if ACMPCAIssueCertificateRequest.VenafiZone cr = '''' then ''Default''
             else ACMPCAIssueCertificateRequest.VenafiZone cr)],
         Returned
           \<lparr>StatusCode = 424,
            Body = ''{ '' @ CHR 0x22 # ''msg'' @ CHR 0x22 # '' : '' @ CHR 0x22 #
                   ''Failed get policy from database: '' @ err @ CHR 0x22 # '' }''\<rparr> None))
   \<and> (\<forall>cr domainName err.
      target request = acmRequestCertificate \<and>
      json_Unmarshal_VenafiRequestCertificateInput env
        (APIGatewayProxyRequest.Body request) = Inr cr \<and>
      DomainName (RequestCertificateInput cr) = Some domainName \<and>
      common_GetPolicy env
        (if VenafiRequestCertificateInput.VenafiZone cr = '''' then ''Default''
         else VenafiRequestCertificateInput.VenafiZone cr) = Inl err \<longrightarrow>
      ACMPCAHandler env request =
        ([Call_Unmarshal (APIGatewayProxyRequest.Body request),
          Call_GetPolicy
            (if VenafiRequestCertificateInput.VenafiZone cr = '''' then ''Default''
             else VenafiRequestCertificateInput.VenafiZone cr)],
         Returned
           \<lparr>StatusCode = 424,
            Body = ''{ '' @ CHR 0x22 # ''msg'' @ CHR 0x22 # '' : '' @ CHR 0x22 #
                   ''Failed get policy from database: '' @ err @ CHR 0x22 # '' }''\<rparr> None))
   \<and> (\<forall>cr csr req policy reason.
      target request = acmpcaIssueCertificate \<and>
      json_Unmarshal_ACMPCAIssueCertificateRequest env
        (APIGatewayProxyRequest.Body request) = Inr cr \<and>
      base64_DecodeString env (Csr (IssueCertificateInput cr)) = Inr csr \<and>
      Request_SetCSR env (zero_Request (Request_zero_more env)) csr = Inr req \<and>
      common_GetPolicy env
        (if ACMPCAIssueCertificateRequest.VenafiZone cr = '''' then ''Default''
         else ACMPCAIssueCertificateRequest.VenafiZone cr) = Inr policy \<and>
      Policy_ValidateCertificateRequest env policy req = Some reason \<longrightarrow>
      (\<exists>calls body.
         ACMPCAHandler env request =
           (calls, Returned \<lparr>StatusCode = 403, Body = body\<rparr> None)))
   \<and> (\<forall>cr domainName policy reason.
      target request = acmRequestCertificate \<and>
      json_Unmarshal_VenafiRequestCertificateInput env
        (APIGatewayProxyRequest.Body request) = Inr cr \<and>
      DomainName (RequestCertificateInput cr) = Some domainName \<and>
      common_GetPolicy env
        (if VenafiRequestCertificateInput.VenafiZone cr = '''' then ''Default''
         else VenafiRequestCertificateInput.VenafiZone cr) = Inr policy \<and>
      Policy_ValidateCertificateRequest env policy
        \<lparr>Subject = \<lparr>CommonName = domainName\<rparr>,
         DNSNames = SubjectAlternativeNames (RequestCertificateInput cr),
         CsrOrigin = ServiceGeneratedCSR, \<dots> = Request_zero_more env\<rparr> = Some reason \<longrightarrow>
      (\<exists>calls body.
         ACMPCAHandler env request =
           (calls, Returned \<lparr>StatusCode = 403, Body = body\<rparr> None)))"
proof (intro conjI allI impI)
  fix cr csr req err
  assume h: "target request = acmpcaIssueCertificate \<and>
      json_Unmarshal_ACMPCAIssueCertificateRequest env
        (APIGatewayProxyRequest.Body request) = Inr cr \<and>
      base64_DecodeString env (Csr (IssueCertificateInput cr)) = Inr csr \<and>
      Request_SetCSR env (zero_Request (Request_zero_more env)) csr = Inr req \<and>
      common_GetPolicy env
        (if ACMPCAIssueCertificateRequest.VenafiZone cr = '''' then ''Default''
         else ACMPCAIssueCertificateRequest.VenafiZone cr) = Inl err"
  then have t: "target request = acmpcaIssueCertificate" by simp
  from h show "ACMPCAHandler env request =
        ([Call_Unmarshal (APIGatewayProxyRequest.Body request),
          Call_DecodeString (Csr (IssueCertificateInput cr)),
          Call_SetCSR csr,
          Call_GetPolicy
            (if ACMPCAIssueCertificateRequest.VenafiZone cr = '''' then ''Default''
             else ACMPCAIssueCertificateRequest.VenafiZone cr)],
         Returned
           \<lparr>StatusCode = 424,
            Body = ''{ '' @ CHR 0x22 # ''msg'' @ CHR 0x22 # '' : '' @ CHR 0x22 #
                   ''Failed get policy from database: '' @ err @ CHR 0x22 # '' }''\<rparr> None)"
    unfolding handler_issue [OF t] by (intro issue_policy_failed) simp_all
next
  fix cr domainName err
  assume h: "target request = acmRequestCertificate \<and>
      json_Unmarshal_VenafiRequestCertificateInput env
        (APIGatewayProxyRequest.Body request) = Inr cr \<and>
      DomainName (RequestCertificateInput cr) = Some domainName \<and>
      common_GetPolicy env
        (if VenafiRequestCertificateInput.VenafiZone cr = '''' then ''Default''
         else VenafiRequestCertificateInput.VenafiZone cr) = Inl err"
  then have t: "target request = acmRequestCertificate" by simp
  from h show "ACMPCAHandler env request =
        ([Call_Unmarshal (APIGatewayProxyRequest.Body request),
          Call_GetPolicy
            (if VenafiRequestCertificateInput.VenafiZone cr = '''' then ''Default''
             else VenafiRequestCertificateInput.VenafiZone cr)],
         Returned
           \<lparr>StatusCode = 424,
            Body = ''{ '' @ CHR 0x22 # ''msg'' @ CHR 0x22 # '' : '' @ CHR 0x22 #
                   ''Failed get policy from database: '' @ err @ CHR 0x22 # '' }''\<rparr> None)"
    unfolding handler_request [OF t] by (intro request_policy_failed) simp_all
next
  fix cr csr req policy reason
  assume h: "target request = acmpcaIssueCertificate \<and>
      json_Unmarshal_ACMPCAIssueCertificateRequest env
        (APIGatewayProxyRequest.Body request) = Inr cr \<and>
      base64_DecodeString env (Csr (IssueCertificateInput cr)) = Inr csr \<and>
      Request_SetCSR env (zero_Request (Request_zero_more env)) csr = Inr req \<and>
      common_GetPolicy env
        (if ACMPCAIssueCertificateRequest.VenafiZone cr = '''' then ''Default''
         else ACMPCAIssueCertificateRequest.VenafiZone cr) = Inr policy \<and>
      Policy_ValidateCertificateRequest env policy req = Some reason"
  then have t: "target request = acmpcaIssueCertificate" by simp
  from h have "venafiACMPCAIssueCertificateRequest env request =
        ([Call_Unmarshal (APIGatewayProxyRequest.Body request),
          Call_DecodeString (Csr (IssueCertificateInput cr)),
          Call_SetCSR csr,
          Call_GetPolicy
            (if ACMPCAIssueCertificateRequest.VenafiZone cr = '''' then ''Default''
             else ACMPCAIssueCertificateRequest.VenafiZone cr),
          Call_ValidateCertificateRequest policy req],
         Returned
           \<lparr>StatusCode = 403,
            Body = ''{ '' @ CHR 0x22 # ''msg'' @ CHR 0x22 # '' : '' @ CHR 0x22 #
                   reason @ CHR 0x22 # '' }''\<rparr> None)"
    by (intro issue_rejected) simp_all
  then show "\<exists>calls body.
         ACMPCAHandler env request =
           (calls, Returned \<lparr>StatusCode = 403, Body = body\<rparr> None)"
    unfolding handler_issue [OF t] by blast
next
  fix cr domainName policy reason
  assume h: "target request = acmRequestCertificate \<and>
      json_Unmarshal_VenafiRequestCertificateInput env
        (APIGatewayProxyRequest.Body request) = Inr cr \<and>
      DomainName (RequestCertificateInput cr) = Some domainName \<and>
      common_GetPolicy env
        (if VenafiRequestCertificateInput.VenafiZone cr = '''' then ''Default''
         else VenafiRequestCertificateInput.VenafiZone cr) = Inr policy \<and>
      Policy_ValidateCertificateRequest env policy
        \<lparr>Subject = \<lparr>CommonName = domainName\<rparr>,
         DNSNames = SubjectAlternativeNames (RequestCertificateInput cr),
         CsrOrigin = ServiceGeneratedCSR, \<dots> = Request_zero_more env\<rparr> = Some reason"
  then have t: "target request = acmRequestCertificate" by simp
  from h have "venafiACMRequestCertificate env request =
        ([Call_Unmarshal (APIGatewayProxyRequest.Body request),
          Call_GetPolicy
            (if VenafiRequestCertificateInput.VenafiZone cr = '''' then ''Default''
             else VenafiRequestCertificateInput.VenafiZone cr),
          Call_ValidateCertificateRequest policy
            \<lparr>Subject = \<lparr>CommonName = domainName\<rparr>,
             DNSNames = SubjectAlternativeNames (RequestCertificateInput cr),
             CsrOrigin = ServiceGeneratedCSR, \<dots> = Request_zero_more env\<rparr>],
         Returned
           \<lparr>StatusCode = 403,
            Body = ''{ '' @ CHR 0x22 # ''msg'' @ CHR 0x22 # '' : '' @ CHR 0x22 #
                   reason @ CHR 0x22 # '' }''\<rparr> None)"
    by (intro request_rejected) simp_all
  then show "\<exists>calls body.
         ACMPCAHandler env request =
           (calls, Returned \<lparr>StatusCode = 403, Body = body\<rparr> None)"
    unfolding handler_request [OF t] by blast
qed

theorem policy_resolution_failure_witness:
  "ACMPCAHandler (stub (''us-east-1'', None) None)
     (request_for acmpcaIssueCertificate body_issue_ghost) =
     ([Call_Unmarshal body_issue_ghost,
       Call_DecodeString csr_b64,
       Call_SetCSR ''CN=test.example.com'',
       Call_GetPolicy ''Ghost''],
      Returned
        \<lparr>StatusCode = 424,
         Body = ''{ '' @ CHR 0x22 # ''msg'' @ CHR 0x22 # '' : '' @ CHR 0x22 #
                ''Failed get policy from database: zone not found'' @ CHR 0x22 # '' }''\<rparr> None)
   \<and> ACMPCAHandler (stub (''us-east-1'', None) None)
     (request_for acmRequestCertificate body_request_ghost) =
     ([Call_Unmarshal body_request_ghost, Call_GetPolicy ''Ghost''],
      Returned
        \<lparr>StatusCode = 424,
         Body = ''{ '' @ CHR 0x22 # ''msg'' @ CHR 0x22 # '' : '' @ CHR 0x22 #
                ''Failed get policy from database: zone not found'' @ CHR 0x22 # '' }''\<rparr> None)
   \<and> (\<exists>calls body.
         ACMPCAHandler (stub (''us-east-1'', None) None)
           (request_for acmpcaIssueCertificate body_issue_strict) =
           (calls, Returned \<lparr>StatusCode = 403, Body = body\<rparr> None))
   \<and> (\<exists>calls body.
         ACMPCAHandler (stub (''us-east-1'', None) None)
           (request_for acmRequestCertificate body_request_strict) =
           (calls, Returned \<lparr>StatusCode = 403, Body = body\<rparr> None))"
  using policy_resolution_failure
          [of "request_for acmpcaIssueCertificate body_issue_ghost"
              "stub (''us-east-1'', None) None", THEN conjunct1]
        policy_resolution_failure
          [of "request_for acmRequestCertificate body_request_ghost"
              "stub (''us-east-1'', None) None", THEN conjunct2, THEN conjunct1]
        policy_resolution_failure
          [of "request_for acmpcaIssueCertificate body_issue_strict"
              "stub (''us-east-1'', None) None", THEN conjunct2, THEN conjunct2, THEN conjunct1]
        policy_resolution_failure
          [of "request_for acmRequestCertificate body_request_strict"
              "stub (''us-east-1'', None) None", THEN conjunct2, THEN conjunct2, THEN conjunct2]
  by (simp add: stub_simps acmpcaIssueCertificate_def acmRequestCertificate_def)

subsection \<open>The default zone\<close>

text \<open>
  C6. For the two gated operations: when the decoded payload has the empty
  \<^verbatim>\<open>VenafiZone\<close> (the value \<^verbatim>\<open>json.Unmarshal\<close> leaves in the field when the body omits it or
  gives the empty string), the handler asks the policy store for no zone other than
  \<^verbatim>\<open>Default\<close>; and when decoding succeeds as a whole, it asks for \<^verbatim>\<open>Default\<close> exactly once.
\<close>

theorem default_zone:
  "(\<forall>cr.
      target request = acmpcaIssueCertificate \<and>
      json_Unmarshal_ACMPCAIssueCertificateRequest env
        (APIGatewayProxyRequest.Body request) = Inr cr \<and>
      ACMPCAIssueCertificateRequest.VenafiZone cr = '''' \<longrightarrow>
      set (resolved_zones (fst (ACMPCAHandler env request))) \<subseteq> {''Default''} \<and>
      (\<forall>csr req.
         base64_DecodeString env (Csr (IssueCertificateInput cr)) = Inr csr \<and>
         Request_SetCSR env (zero_Request (Request_zero_more env)) csr = Inr req \<longrightarrow>
         resolved_zones (fst (ACMPCAHandler env request)) = [''Default'']))
   \<and> (\<forall>cr.
      target request = acmRequestCertificate \<and>
      json_Unmarshal_VenafiRequestCertificateInput env
        (APIGatewayProxyRequest.Body request) = Inr cr \<and>
      VenafiRequestCertificateInput.VenafiZone cr = '''' \<longrightarrow>
      set (resolved_zones (fst (ACMPCAHandler env request))) \<subseteq> {''Default''} \<and>
      (\<forall>domainName.
         DomainName (RequestCertificateInput cr) = Some domainName \<longrightarrow>
         resolved_zones (fst (ACMPCAHandler env request)) = [''Default'']))"
proof (intro conjI allI impI)
  fix cr
  assume h: "target request = acmpcaIssueCertificate \<and>
      json_Unmarshal_ACMPCAIssueCertificateRequest env
        (APIGatewayProxyRequest.Body request) = Inr cr \<and>
      ACMPCAIssueCertificateRequest.VenafiZone cr = ''''"
  then have t: "target request = acmpcaIssueCertificate" by simp
  from h show "set (resolved_zones (fst (ACMPCAHandler env request))) \<subseteq> {''Default''}"
    unfolding handler_issue [OF t]
    by (simp add: venafiACMPCAIssueCertificateRequest_def Let_def
          split: sum.split option.split prod.split)
  fix csr req
  assume "base64_DecodeString env (Csr (IssueCertificateInput cr)) = Inr csr \<and>
         Request_SetCSR env (zero_Request (Request_zero_more env)) csr = Inr req"
  with h show "resolved_zones (fst (ACMPCAHandler env request)) = [''Default'']"
    unfolding handler_issue [OF t]
    by (simp add: venafiACMPCAIssueCertificateRequest_def Let_def
          split: sum.split option.split prod.split)
next
  fix cr
  assume h: "target request = acmRequestCertificate \<and>
      json_Unmarshal_VenafiRequestCertificateInput env
        (APIGatewayProxyRequest.Body request) = Inr cr \<and>
      VenafiRequestCertificateInput.VenafiZone cr = ''''"
  then have t: "target request = acmRequestCertificate" by simp
  from h show "set (resolved_zones (fst (ACMPCAHandler env request))) \<subseteq> {''Default''}"
    unfolding handler_request [OF t]
    by (simp add: venafiACMRequestCertificate_def Let_def
          split: sum.split option.split prod.split)
  fix domainName
  assume "DomainName (RequestCertificateInput cr) = Some domainName"
  with h show "resolved_zones (fst (ACMPCAHandler env request)) = [''Default'']"
    unfolding handler_request [OF t]
    by (simp add: venafiACMRequestCertificate_def Let_def
          split: sum.split option.split prod.split)
qed

theorem default_zone_witness:
  "ACMPCAIssueCertificateRequest.VenafiZone
     \<lparr>IssueCertificateInput = \<lparr>Csr = csr_b64\<rparr>, VenafiZone = ''''\<rparr> = ''''
   \<and> resolved_zones
       (fst (ACMPCAHandler (stub (''us-east-1'', None) None)
               (request_for acmpcaIssueCertificate body_issue))) = [''Default'']
   \<and> resolved_zones
       (fst (ACMPCAHandler (stub (''us-east-1'', None) None)
               (request_for acmRequestCertificate body_request))) = [''Default'']"
  using default_zone
          [of "request_for acmpcaIssueCertificate body_issue"
              "stub (''us-east-1'', None) None"]
        default_zone
          [of "request_for acmRequestCertificate body_request"
              "stub (''us-east-1'', None) None"]
  by (simp add: stub_simps acmpcaIssueCertificate_def acmRequestCertificate_def)

subsection \<open>A configuration that does not load\<close>

text \<open>
  C7, as the code has it. In the two gated operations, when
  \<^verbatim>\<open>external.LoadDefaultAWSConfig\<close> fails the handler does not call the backend. In the
  private-CA operation the failure is fatal: when the request has passed the validator,
  the handler returns status 500 (internal server error) and the body
  \<^verbatim>\<open>{ "msg" : "Error loading client: <error>" }\<close>, and the trace ends with the call that loads
  the configuration.
\<close>

theorem config_failure_is_fatal:
  "(\<forall>cr csr req policy awsCfg err.
      target request = acmpcaIssueCertificate \<and>
      json_Unmarshal_ACMPCAIssueCertificateRequest env
        (APIGatewayProxyRequest.Body request) = Inr cr \<and>
      base64_DecodeString env (Csr (IssueCertificateInput cr)) = Inr csr \<and>
      Request_SetCSR env (zero_Request (Request_zero_more env)) csr = Inr req \<and>
      common_GetPolicy env
        (if ACMPCAIssueCertificateRequest.VenafiZone cr = '''' then ''Default''
         else ACMPCAIssueCertificateRequest.VenafiZone cr) = Inr policy \<and>
      Policy_ValidateCertificateRequest env policy req = None \<and>
      external_LoadDefaultAWSConfig env = (awsCfg, Some err) \<longrightarrow>
      ACMPCAHandler env request =
        ([Call_Unmarshal (APIGatewayProxyRequest.Body request),
          Call_DecodeString (Csr (IssueCertificateInput cr)),
          Call_SetCSR csr,
          Call_GetPolicy
            (if ACMPCAIssueCertificateRequest.VenafiZone cr = '''' then ''Default''
             else ACMPCAIssueCertificateRequest.VenafiZone cr),
          Call_ValidateCertificateRequest policy req,
          Call_LoadDefaultAWSConfig],
         Returned
           \<lparr>StatusCode = 500,
            Body = ''{ '' @ CHR 0x22 # ''msg'' @ CHR 0x22 # '' : '' @ CHR 0x22 #
                   ''Error loading client: '' @ err @ CHR 0x22 # '' }''\<rparr> None))
   \<and> (\<forall>awsCfg err.
      (target request = acmpcaIssueCertificate \<or> target request = acmRequestCertificate) \<and>
      external_LoadDefaultAWSConfig env = (awsCfg, Some err) \<longrightarrow>
      \<not> list_ex is_Send (fst (ACMPCAHandler env request)))"
proof (intro conjI allI impI)
  fix cr csr req policy awsCfg err
  assume h: "target request = acmpcaIssueCertificate \<and>
      json_Unmarshal_ACMPCAIssueCertificateRequest env
        (APIGatewayProxyRequest.Body request) = Inr cr \<and>
      base64_DecodeString env (Csr (IssueCertificateInput cr)) = Inr csr \<and>
      Request_SetCSR env (zero_Request (Request_zero_more env)) csr = Inr req \<and>
      common_GetPolicy env
        (if ACMPCAIssueCertificateRequest.VenafiZone cr = '''' then ''Default''
         else ACMPCAIssueCertificateRequest.VenafiZone cr) = Inr policy \<and>
      Policy_ValidateCertificateRequest env policy req = None \<and>
      external_LoadDefaultAWSConfig env = (awsCfg, Some err)"
  then have t: "target request = acmpcaIssueCertificate" by simp
  from h show "ACMPCAHandler env request =
        ([Call_Unmarshal (APIGatewayProxyRequest.Body request),
          Call_DecodeString (Csr (IssueCertificateInput cr)),
          Call_SetCSR csr,
          Call_GetPolicy
            (if ACMPCAIssueCertificateRequest.VenafiZone cr = '''' then ''Default''
             else ACMPCAIssueCertificateRequest.VenafiZone cr),
          Call_ValidateCertificateRequest policy req,
          Call_LoadDefaultAWSConfig],
         Returned
           \<lparr>StatusCode = 500,
            Body = ''{ '' @ CHR 0x22 # ''msg'' @ CHR 0x22 # '' : '' @ CHR 0x22 #
                   ''Error loading client: '' @ err @ CHR 0x22 # '' }''\<rparr> None)"
    unfolding handler_issue [OF t] by (intro issue_config_failed) simp_all
next
  fix awsCfg err
  assume h: "(target request = acmpcaIssueCertificate \<or> target request = acmRequestCertificate) \<and>
      external_LoadDefaultAWSConfig env = (awsCfg, Some err)"
  then have L: "external_LoadDefaultAWSConfig env = (awsCfg, Some err)" by simp
  from h consider "target request = acmpcaIssueCertificate"
    | "target request = acmRequestCertificate" by blast
  then show "\<not> list_ex is_Send (fst (ACMPCAHandler env request))"
  proof cases
    case 1
    show ?thesis
      unfolding handler_issue [OF 1] using L
      by (simp add: venafiACMPCAIssueCertificateRequest_def Let_def
            split: sum.split option.split)
  next
    case 2
    show ?thesis
      unfolding handler_request [OF 2] using L
      by (simp add: venafiACMRequestCertificate_def Let_def
            split: sum.split option.split)
  qed
qed

theorem config_failure_is_fatal_witness:
  "external_LoadDefaultAWSConfig (stub ('''', Some ''no region'') None)
     = ('''', Some ''no region'')
   \<and> ACMPCAHandler (stub ('''', Some ''no region'') None)
         (request_for acmpcaIssueCertificate body_issue) =
       ([Call_Unmarshal body_issue,
         Call_DecodeString csr_b64,
         Call_SetCSR ''CN=test.example.com'',
         Call_GetPolicy ''Default'',
         Call_ValidateCertificateRequest [''test.example.com'']
           \<lparr>Subject = \<lparr>CommonName = ''test.example.com''\<rparr>, DNSNames = [],
            CsrOrigin = LocalGeneratedCSR\<rparr>,
         Call_LoadDefaultAWSConfig],
        Returned
          \<lparr>StatusCode = 500,
           Body = ''{ '' @ CHR 0x22 # ''msg'' @ CHR 0x22 # '' : '' @ CHR 0x22 #
                  ''Error loading client: no region'' @ CHR 0x22 # '' }''\<rparr> None)
   \<and> \<not> list_ex is_Send
         (fst (ACMPCAHandler (stub ('''', Some ''no region'') None)
                 (request_for acmpcaIssueCertificate body_issue)))
   \<and> \<not> list_ex is_Send
         (fst (ACMPCAHandler (stub ('''', Some ''no region'') None)
                 (request_for acmRequestCertificate body_request)))"
  using config_failure_is_fatal
          [of "request_for acmpcaIssueCertificate body_issue"
              "stub ('''', Some ''no region'') None", THEN conjunct1]
        config_failure_is_fatal
          [of "request_for acmpcaIssueCertificate body_issue"
              "stub ('''', Some ''no region'') None", THEN conjunct2]
        config_failure_is_fatal
          [of "request_for acmRequestCertificate body_request"
              "stub ('''', Some ''no region'') None", THEN conjunct2]
  by (simp add: stub_simps acmpcaIssueCertificate_def acmRequestCertificate_def)

text \<open>
  C7 as the specification states it does not hold. In the managed-certificate operation
  the handler prints the error of \<^verbatim>\<open>external.LoadDefaultAWSConfig\<close> and goes on building the
  request: it panics there and returns no response at all. In the private-CA operation
  the response has status 500, which is not the status 424 the handler uses for a failed
  dependency.
\<close>

theorem config_failure_without_dependency_response:
  "ACMPCAHandler (stub ('''', Some ''no region'') None)
     (request_for acmRequestCertificate body_request) =
     ([Call_Unmarshal body_request,
       Call_GetPolicy ''Default'',
       Call_ValidateCertificateRequest [''test.example.com'']
         \<lparr>Subject = \<lparr>CommonName = ''test.example.com''\<rparr>, DNSNames = [],
          CsrOrigin = ServiceGeneratedCSR\<rparr>,
       Call_LoadDefaultAWSConfig,
       Call_Println (''Error loading client no region'' @ [CHR 0x0A])],
      Panicked ''invalid memory address or nil pointer dereference'')
   \<and> ACMPCAHandler (stub ('''', Some ''no region'') None)
         (request_for acmpcaIssueCertificate body_issue) =
       ([Call_Unmarshal body_issue,
         Call_DecodeString csr_b64,
         Call_SetCSR ''CN=test.example.com'',
         Call_GetPolicy ''Default'',
         Call_ValidateCertificateRequest [''test.example.com'']
           \<lparr>Subject = \<lparr>CommonName = ''test.example.com''\<rparr>, DNSNames = [],
            CsrOrigin = LocalGeneratedCSR\<rparr>,
         Call_LoadDefaultAWSConfig],
        Returned
          \<lparr>StatusCode = 500,
           Body = ''{ '' @ CHR 0x22 # ''msg'' @ CHR 0x22 # '' : '' @ CHR 0x22 #
                  ''Error loading client: no region'' @ CHR 0x22 # '' }''\<rparr> None)
   \<and> StatusFailedDependency = 424"
  by (simp add: handler_issue handler_request venafiACMPCAIssueCertificateRequest_def
        venafiACMRequestCertificate_def stub_simps clientError_def
        StatusInternalServerError_def StatusFailedDependency_def)

subsection \<open>The managed-certificate operation needs a domain name\<close>

text \<open>
  C8. For the managed-certificate operation, after \<^verbatim>\<open>json.Unmarshal\<close> has succeeded: when
  the payload has no \<^verbatim>\<open>DomainName\<close> the handler panics on the nil pointer right after
  decoding, it returns no response (there is no error response for this case) and it
  calls nothing else. So a run that ends with a response had a \<^verbatim>\<open>DomainName\<close>. When the
  payload has a \<^verbatim>\<open>DomainName\<close>, the request the handler gives to the validator has this
  name as its common name, and the handler returns a response with a nil error if the
  AWS configuration loads.
\<close>

theorem request_certificate_needs_domain_name:
  assumes "target request = acmRequestCertificate"
      and "json_Unmarshal_VenafiRequestCertificateInput env
             (APIGatewayProxyRequest.Body request) = Inr cr"
  shows "(DomainName (RequestCertificateInput cr) = None \<longrightarrow>
            ACMPCAHandler env request =
              ([Call_Unmarshal (APIGatewayProxyRequest.Body request)],
               Panicked ''invalid memory address or nil pointer dereference''))
       \<and> (\<forall>resp e.
            snd (ACMPCAHandler env request) = Returned resp e \<longrightarrow>
            DomainName (RequestCertificateInput cr) \<noteq> None)
       \<and> (\<forall>domainName.
            DomainName (RequestCertificateInput cr) = Some domainName \<longrightarrow>
            (\<forall>awsCfg.
               external_LoadDefaultAWSConfig env = (awsCfg, None) \<longrightarrow>
               (\<exists>resp. snd (ACMPCAHandler env request) = Returned resp None)) \<and>
            (\<forall>policy.
               common_GetPolicy env
                 (if VenafiRequestCertificateInput.VenafiZone cr = '''' then ''Default''
                  else VenafiRequestCertificateInput.VenafiZone cr) = Inr policy \<longrightarrow>
               (\<exists>post. fst (ACMPCAHandler env request) =
                  [Call_Unmarshal (APIGatewayProxyRequest.Body request),
                   Call_GetPolicy
                     (if VenafiRequestCertificateInput.VenafiZone cr = '''' then ''Default''
                      else VenafiRequestCertificateInput.VenafiZone cr),
                   Call_ValidateCertificateRequest policy
                     \<lparr>Subject = \<lparr>CommonName = domainName\<rparr>,
                      DNSNames = SubjectAlternativeNames (RequestCertificateInput cr),
                      CsrOrigin = ServiceGeneratedCSR, \<dots> = Request_zero_more env\<rparr>]
                  @ post)))"
proof (intro conjI allI impI)
  assume "DomainName (RequestCertificateInput cr) = None"
  then show "ACMPCAHandler env request =
              ([Call_Unmarshal (APIGatewayProxyRequest.Body request)],
               Panicked ''invalid memory address or nil pointer dereference'')"
    unfolding handler_request [OF assms(1)] by (rule request_panicked [OF assms(2)])
next
  fix resp e
  assume r: "snd (ACMPCAHandler env request) = Returned resp e"
  show "DomainName (RequestCertificateInput cr) \<noteq> None"
  proof
    assume "DomainName (RequestCertificateInput cr) = None"
    then have "venafiACMRequestCertificate env request =
           ([Call_Unmarshal (APIGatewayProxyRequest.Body request)],
            Panicked ''invalid memory address or nil pointer dereference'')"
      by (rule request_panicked [OF assms(2)])
    with r show False
      unfolding handler_request [OF assms(1)] by simp
  qed
next
  fix domainName awsCfg
  assume N: "DomainName (RequestCertificateInput cr) = Some domainName"
     and L: "external_LoadDefaultAWSConfig env = (awsCfg, None)"
  with assms(2) show "\<exists>resp. snd (ACMPCAHandler env request) = Returned resp None"
    unfolding handler_request [OF assms(1)]
    by (simp add: venafiACMRequestCertificate_def Let_def clientError_def
          split: sum.split option.split)
next
  fix domainName policy
  assume N: "DomainName (RequestCertificateInput cr) = Some domainName"
     and G: "common_GetPolicy env
            (if VenafiRequestCertificateInput.VenafiZone cr = '''' then ''Default''
             else VenafiRequestCertificateInput.VenafiZone cr) = Inr policy"
  obtain awsCfg cfgErr where L: "external_LoadDefaultAWSConfig env = (awsCfg, cfgErr)"
    by (cases "external_LoadDefaultAWSConfig env")
  show "\<exists>post. fst (ACMPCAHandler env request) =
                  [Call_Unmarshal (APIGatewayProxyRequest.Body request),
                   Call_GetPolicy
                     (if VenafiRequestCertificateInput.VenafiZone cr = '''' then ''Default''
                      else VenafiRequestCertificateInput.VenafiZone cr),
                   Call_ValidateCertificateRequest policy
                     \<lparr>Subject = \<lparr>CommonName = domainName\<rparr>,
                      DNSNames = SubjectAlternativeNames (RequestCertificateInput cr),
                      CsrOrigin = ServiceGeneratedCSR, \<dots> = Request_zero_more env\<rparr>]
                  @ post"
    unfolding handler_request [OF assms(1)]
  proof (cases "Policy_ValidateCertificateRequest env policy
                  \<lparr>Subject = \<lparr>CommonName = domainName\<rparr>,
                   DNSNames = SubjectAlternativeNames (RequestCertificateInput cr),
                   CsrOrigin = ServiceGeneratedCSR, \<dots> = Request_zero_more env\<rparr>")
    case None
    show "\<exists>post. fst (venafiACMRequestCertificate env request) =
                  [Call_Unmarshal (APIGatewayProxyRequest.Body request),
                   Call_GetPolicy
                     (if VenafiRequestCertificateInput.VenafiZone cr = '''' then ''Default''
                      else VenafiRequestCertificateInput.VenafiZone cr),
                   Call_ValidateCertificateRequest policy
                     \<lparr>Subject = \<lparr>CommonName = domainName\<rparr>,
                      DNSNames = SubjectAlternativeNames (RequestCertificateInput cr),
                      CsrOrigin = ServiceGeneratedCSR, \<dots> = Request_zero_more env\<rparr>]
                  @ post"
    proof (cases cfgErr)
      case cfg_ok: None
      show ?thesis by (simp add: request_sent [OF assms(2) N G None L [unfolded cfg_ok]])
    next
      case (Some err)
      show ?thesis
        by (simp add: request_config_failed [OF assms(2) N G None L [unfolded Some]])
    qed
  next
    case (Some reason)
    show "\<exists>post. fst (venafiACMRequestCertificate env request) =
                  [Call_Unmarshal (APIGatewayProxyRequest.Body request),
                   Call_GetPolicy
                     (if VenafiRequestCertificateInput.VenafiZone cr = '''' then ''Default''
                      else VenafiRequestCertificateInput.VenafiZone cr),
                   Call_ValidateCertificateRequest policy
                     \<lparr>Subject = \<lparr>CommonName = domainName\<rparr>,
                      DNSNames = SubjectAlternativeNames (RequestCertificateInput cr),
                      CsrOrigin = ServiceGeneratedCSR, \<dots> = Request_zero_more env\<rparr>]
                  @ post"
      by (simp add: request_rejected [OF assms(2) N G Some])
  qed
qed

theorem request_certificate_needs_domain_name_witness:
  "target (request_for acmRequestCertificate body_request_no_domain) = acmRequestCertificate
   \<and> ACMPCAHandler (stub (''us-east-1'', None) None)
         (request_for acmRequestCertificate body_request_no_domain) =
       ([Call_Unmarshal body_request_no_domain],
        Panicked ''invalid memory address or nil pointer dereference'')
   \<and> snd (ACMPCAHandler (stub (''us-east-1'', None) None)
            (request_for acmRequestCertificate body_request)) =
       Returned \<lparr>StatusCode = 200, Body = requested_json\<rparr> None
   \<and> DomainName \<lparr>DomainName = Some ''test.example.com'', SubjectAlternativeNames = []\<rparr>
       \<noteq> None
   \<and> (\<exists>resp. snd (ACMPCAHandler (stub (''us-east-1'', None) None)
                      (request_for acmRequestCertificate body_request)) = Returned resp None)
   \<and> (\<exists>post. fst (ACMPCAHandler (stub (''us-east-1'', None) None)
                      (request_for acmRequestCertificate body_request)) =
         [Call_Unmarshal body_request,
          Call_GetPolicy ''Default'',
          Call_ValidateCertificateRequest [''test.example.com'']
            \<lparr>Subject = \<lparr>CommonName = ''test.example.com''\<rparr>, DNSNames = [],
             CsrOrigin = ServiceGeneratedCSR\<rparr>] @ post)"
proof -
  have t: "target (request_for acmRequestCertificate body_request) = acmRequestCertificate"
    by simp
  have u: "json_Unmarshal_VenafiRequestCertificateInput (stub (''us-east-1'', None) None)
             (APIGatewayProxyRequest.Body (request_for acmRequestCertificate body_request)) =
           Inr \<lparr>RequestCertificateInput =
                  \<lparr>DomainName = Some ''test.example.com'', SubjectAlternativeNames = []\<rparr>,
                VenafiZone = ''''\<rparr>"
    by (simp add: stub_simps)
  have run: "snd (ACMPCAHandler (stub (''us-east-1'', None) None)
                    (request_for acmRequestCertificate body_request)) =
             Returned \<lparr>StatusCode = 200, Body = requested_json\<rparr> None"
    by (simp add: handler_request venafiACMRequestCertificate_def stub_simps
          requested_json_def StatusOK_def)
  have supplied:
    "DomainName \<lparr>DomainName = Some ''test.example.com'', SubjectAlternativeNames = []\<rparr>
       \<noteq> None"
    using request_certificate_needs_domain_name
            [OF t u, THEN conjunct2, THEN conjunct1, THEN spec, THEN spec, THEN mp, OF run]
    by simp
  have rest: "target (request_for acmRequestCertificate body_request_no_domain)
                = acmRequestCertificate
   \<and> ACMPCAHandler (stub (''us-east-1'', None) None)
         (request_for acmRequestCertificate body_request_no_domain) =
       ([Call_Unmarshal body_request_no_domain],
        Panicked ''invalid memory address or nil pointer dereference'')
   \<and> (\<exists>resp. snd (ACMPCAHandler (stub (''us-east-1'', None) None)
                      (request_for acmRequestCertificate body_request)) = Returned resp None)
   \<and> (\<exists>post. fst (ACMPCAHandler (stub (''us-east-1'', None) None)
                      (request_for acmRequestCertificate body_request)) =
         [Call_Unmarshal body_request,
          Call_GetPolicy ''Default'',
          Call_ValidateCertificateRequest [''test.example.com'']
            \<lparr>Subject = \<lparr>CommonName = ''test.example.com''\<rparr>, DNSNames = [],
             CsrOrigin = ServiceGeneratedCSR\<rparr>] @ post)"
    using request_certificate_needs_domain_name
            [of "request_for acmRequestCertificate body_request_no_domain"
                "stub (''us-east-1'', None) None"
                "\<lparr>RequestCertificateInput =
                    \<lparr>DomainName = None, SubjectAlternativeNames = []\<rparr>,
                  VenafiZone = ''Default''\<rparr>", THEN conjunct1]
          request_certificate_needs_domain_name
            [OF t u, THEN conjunct2, THEN conjunct2]
    by (simp add: stub_simps acmRequestCertificate_def)
  from rest run supplied show ?thesis by simp
qed

subsection \<open>The error envelope\<close>

text \<open>For a message of plain characters the body \<^verbatim>\<open>clientError\<close> builds is the JSON object
  the specification describes, and it holds the message.\<close>

lemma plain_message_envelope:
  assumes "\<forall>c \<in> set m. plain_char c"
      and "clientError status m = Returned resp e"
  shows "msg_envelope (APIGatewayProxyResponse.Body resp) = Some m"
proof -
  have "APIGatewayProxyResponse.Body resp =
          ''{ '' @ CHR 0x22 # ''msg'' @ CHR 0x22 # '' : '' @ CHR 0x22 # m @ CHR 0x22 # '' }''"
    using assms(2) by (auto simp add: clientError_def)
  then show ?thesis
    by (simp only: envelope_plain [OF assms(1)])
qed

text \<open>
  C9 fails on the code. The body of the managed-certificate request below is not JSON:
  \<^verbatim>\<open>json.Unmarshal\<close> fails, and its message holds a quotation mark. \<^verbatim>\<open>clientError\<close> puts the
  message between the quotation marks of the envelope without escaping it, and the body
  of the response is not a JSON text.
\<close>

theorem error_envelope_not_json:
  "ACMPCAHandler (stub (''us-east-1'', None) None)
     (request_for acmRequestCertificate body_syntax_error) =
     ([Call_Unmarshal body_syntax_error],
      Returned \<lparr>StatusCode = 422, Body = envelope_syntax_error\<rparr> None)
   \<and> msg_envelope envelope_syntax_error = None"
  by (simp add: handler_request venafiACMRequestCertificate_def stub_simps clientError_def
        StatusUnprocessableEntity_def envelope_syntax_error_def msg_envelope_def expect_def
        is_ws_def)

subsection \<open>A target outside the registry\<close>

text \<open>
  C10. When the value of \<^verbatim>\<open>X-Amz-Target\<close> (the empty string when the header is absent) is
  none of the four targets of the switch, the handler returns status 405 and the body
  \<^verbatim>\<open>{ "msg" : "Can't determine requested method" }\<close>, whatever the request's body is, and its
  trace is empty: it decodes nothing and calls neither the policy store nor the backend.
  The body is a JSON object whose message is that text.
\<close>

theorem unsupported_operation:
  assumes "target request \<noteq> acmpcaIssueCertificate"
      and "target request \<noteq> acmRequestCertificate"
      and "target request \<noteq> acmpcaListCertificateAuthorities env"
      and "target request \<noteq> acmpcaGetCertificate env"
  shows "ACMPCAHandler env (request\<lparr>APIGatewayProxyRequest.Body := body\<rparr>) =
           ([], Returned
                  \<lparr>StatusCode = 405,
                   Body = ''{ '' @ CHR 0x22 # ''msg'' @ CHR 0x22 # '' : '' @ CHR 0x22 #
                          ''Can't determine requested method'' @ CHR 0x22 # '' }''\<rparr> None)
       \<and> msg_envelope
           (''{ '' @ CHR 0x22 # ''msg'' @ CHR 0x22 # '' : '' @ CHR 0x22 #
            ''Can't determine requested method'' @ CHR 0x22 # '' }'')
         = Some ''Can't determine requested method''"
  using assms
  by (simp add: ACMPCAHandler_def target_def clientError_def StatusMethodNotAllowed_def
        msg_envelope_def expect_def is_ws_def)

theorem unsupported_operation_witness:
  "target (request_for ''ACMPrivateCA.RevokeCertificate'' '''') \<noteq> acmpcaIssueCertificate
   \<and> target (request_for ''ACMPrivateCA.RevokeCertificate'' '''') \<noteq> acmRequestCertificate
   \<and> target (request_for ''ACMPrivateCA.RevokeCertificate'' '''')
        \<noteq> acmpcaListCertificateAuthorities (stub (''us-east-1'', None) None)
   \<and> target (request_for ''ACMPrivateCA.RevokeCertificate'' '''')
        \<noteq> acmpcaGetCertificate (stub (''us-east-1'', None) None)
   \<and> ACMPCAHandler (stub (''us-east-1'', None) None)
         (request_for ''ACMPrivateCA.RevokeCertificate'' body_issue) =
       ([], Returned
              \<lparr>StatusCode = 405,
               Body = ''{ '' @ CHR 0x22 # ''msg'' @ CHR 0x22 # '' : '' @ CHR 0x22 #
                      ''Can't determine requested method'' @ CHR 0x22 # '' }''\<rparr> None)
   \<and> msg_envelope
           (''{ '' @ CHR 0x22 # ''msg'' @ CHR 0x22 # '' : '' @ CHR 0x22 #
            ''Can't determine requested method'' @ CHR 0x22 # '' }'')
         = Some ''Can't determine requested method''"
  using unsupported_operation
          [of "request_for ''ACMPrivateCA.RevokeCertificate'' ''''"
              "stub (''us-east-1'', None) None" body_issue]
  by (simp add: stub_def request_for_def target_def acmpcaIssueCertificate_def
        acmRequestCertificate_def)

end
